theory Spec2Isabelle
  imports Complex_Main "HOL-Library.List_Lexorder" "HOL-Library.Char_ord"
begin

section \<open>Python values\<close>

text \<open>
  The values that flow through \<^verbatim>\<open>async_admin.py\<close>: credentials, room identifiers, event
  arguments, message payloads. \<open>PStr\<close> is \<^verbatim>\<open>str\<close>, \<open>PBytes\<close> is \<^verbatim>\<open>bytes\<close>, \<open>PReal\<close> stands
  for a \<^verbatim>\<open>float\<close> (time values only), a dictionary is the list of its items in insertion
  order, read through \<open>map_of\<close>.
\<close>

datatype pyval =
    PNone
  | PBool bool
  | PInt int
  | PReal real
  | PStr string
  | PBytes string
  | PList "pyval list"
  | PTuple "pyval list"
  | PDict "(string \<times> pyval) list"

datatype error =
    ValueError string
  | ConnectionRefusedError string
  | KeyError string
  | IndexError
  | TypeError
  | AttributeError
  | Raised string

text \<open>Truth value testing, as \<^verbatim>\<open>if x:\<close> does it.\<close>

fun py_truthy :: "pyval \<Rightarrow> bool" where
  "py_truthy PNone = False"
| "py_truthy (PBool b) = b"
| "py_truthy (PInt n) = (n \<noteq> 0)"
| "py_truthy (PReal r) = (r \<noteq> 0)"
| "py_truthy (PStr s) = (s \<noteq> [])"
| "py_truthy (PBytes s) = (s \<noteq> [])"
| "py_truthy (PList xs) = (xs \<noteq> [])"
| "py_truthy (PTuple xs) = (xs \<noteq> [])"
| "py_truthy (PDict kvs) = (kvs \<noteq> [])"

fun py_num :: "pyval \<Rightarrow> real option" where
  "py_num (PBool b) = Some (if b then 1 else 0)"
| "py_num (PInt n) = Some (real_of_int n)"
| "py_num (PReal r) = Some r"
| "py_num _ = None"

text \<open>
  The operator \<^verbatim>\<open>==\<close>: numbers compare by value (\<^verbatim>\<open>True == 1\<close>), sequences elementwise,
  dictionaries by their items whatever the insertion order.
\<close>

fun py_eq :: "pyval \<Rightarrow> pyval \<Rightarrow> bool" where
  "py_eq (PList xs) (PList ys) = list_all2 py_eq xs ys"
| "py_eq (PTuple xs) (PTuple ys) = list_all2 py_eq xs ys"
| "py_eq (PDict d) (PDict e) =
     (list_all (\<lambda>(k, v). case map_of e k of None \<Rightarrow> False | Some w \<Rightarrow> py_eq v w) d \<and>
      list_all (\<lambda>(k, w). map_of d k \<noteq> None) e)"
| "py_eq (PStr a) (PStr b) = (a = b)"
| "py_eq (PBytes a) (PBytes b) = (a = b)"
| "py_eq PNone PNone = True"
| "py_eq a b = (case (py_num a, py_num b) of (Some x, Some y) \<Rightarrow> x = y | _ \<Rightarrow> False)"

text \<open>The operator \<^verbatim>\<open>in\<close> on a list.\<close>

definition py_in :: "pyval \<Rightarrow> pyval list \<Rightarrow> bool" where
  "py_in v xs = list_ex (py_eq v) xs"

text \<open>\<^verbatim>\<open>len(x)\<close>; a value without a length raises \<^verbatim>\<open>TypeError\<close>.\<close>

fun py_len :: "pyval \<Rightarrow> error + int" where
  "py_len (PStr s) = Inr (int (length s))"
| "py_len (PBytes s) = Inr (int (length s))"
| "py_len (PList xs) = Inr (int (length xs))"
| "py_len (PTuple xs) = Inr (int (length xs))"
| "py_len (PDict kvs) = Inr (int (length kvs))"
| "py_len _ = Inl TypeError"

text \<open>\<^verbatim>\<open>d[k]\<close> for a string key.\<close>

fun py_getitem :: "pyval \<Rightarrow> string \<Rightarrow> error + pyval" where
  "py_getitem (PDict kvs) k = (case map_of kvs k of None \<Rightarrow> Inl (KeyError k) | Some v \<Rightarrow> Inr v)"
| "py_getitem _ k = Inl TypeError"

text \<open>
  \<^verbatim>\<open>int(x)\<close> in base 10. The literal is stripped of surrounding whitespace, may carry one
  sign, and is a run of decimal digits in which single underscores may separate digits;
  anything else raises \<^verbatim>\<open>ValueError\<close>, and so does a literal of more digits than the
  interpreter's limit for conversions (4300 by default). Characters are the code points
  below 256. In a \<^verbatim>\<open>bytes\<close> literal the whitespace is tab, line feed, vertical tab, form
  feed, carriage return and space; in a \<^verbatim>\<open>str\<close> literal also the two whitespace characters
  above 127, next line (133) and no-break space (160). The separators 28 to 31 are not
  stripped.
\<close>

definition is_ascii_space :: "char \<Rightarrow> bool" where
  "is_ascii_space c = (let n = (of_char c :: nat) in (9 \<le> n \<and> n \<le> 13) \<or> n = 32)"

definition is_space :: "char \<Rightarrow> bool" where
  "is_space c = (let n = (of_char c :: nat) in is_ascii_space c \<or> n = 133 \<or> n = 160)"

definition is_digit :: "char \<Rightarrow> bool" where
  "is_digit c = (let n = (of_char c :: nat) in 48 \<le> n \<and> n \<le> 57)"

definition digit_val :: "char \<Rightarrow> nat" where
  "digit_val c = (of_char c :: nat) - 48"

definition strip :: "(char \<Rightarrow> bool) \<Rightarrow> string \<Rightarrow> string" where
  "strip space s = rev (dropWhile space (rev (dropWhile space s)))"

fun parse_digits :: "string \<Rightarrow> nat \<Rightarrow> nat option" where
  "parse_digits [] acc = Some acc"
| "parse_digits (c # cs) acc =
     (if is_digit c then parse_digits cs (acc * 10 + digit_val c)
      else if c = CHR ''_'' then
        (case cs of
           [] \<Rightarrow> None
         | d # ds \<Rightarrow> if is_digit d then parse_digits cs acc else None)
      else None)"

definition max_str_digits :: nat where
  "max_str_digits = 4300"

text \<open>The conversion of a stripped literal \<open>t\<close>; \<open>s\<close> is the argument, for the exception.\<close>

definition int_of_literal :: "string \<Rightarrow> string \<Rightarrow> error + int" where
  "int_of_literal s t =
     (let neg = (case t of [] \<Rightarrow> False | c # cs \<Rightarrow> c = CHR ''-'');
          body = (case t of [] \<Rightarrow> []
                  | c # cs \<Rightarrow> if c = CHR ''-'' \<or> c = CHR ''+'' then cs else t)
      in case body of
           [] \<Rightarrow> Inl (ValueError s)
         | c # cs \<Rightarrow>
             if is_digit c then
               (case parse_digits body 0 of
                  None \<Rightarrow> Inl (ValueError s)
                | Some n \<Rightarrow>
                    if max_str_digits < length (filter is_digit body) then Inl (ValueError s)
                    else Inr (if neg then - int n else int n))
             else Inl (ValueError s))"

definition int_of_str :: "string \<Rightarrow> error + int" where
  "int_of_str s = int_of_literal s (strip is_space s)"

definition int_of_bytes :: "string \<Rightarrow> error + int" where
  "int_of_bytes s = int_of_literal s (strip is_ascii_space s)"

fun py_int :: "pyval \<Rightarrow> error + int" where
  "py_int (PInt n) = Inr n"
| "py_int (PBool b) = Inr (if b then 1 else 0)"
| "py_int (PReal r) = Inr (if r < 0 then \<lceil>r\<rceil> else \<lfloor>r\<rfloor>)"
| "py_int (PStr s) = int_of_str s"
| "py_int (PBytes s) = int_of_bytes s"
| "py_int _ = Inl TypeError"

section \<open>The aggregation buffer\<close>

text \<open>
  Modelled from the spec: the class \<^verbatim>\<open>EventBuffer\<close> is imported from \<^verbatim>\<open>.admin\<close>, which is not
  among the sources. Section 4.5 of the specification: \<^verbatim>\<open>push(counterName, amount=1)\<close> adds
  the amount to the named counter, creating it at zero if absent; \<^verbatim>\<open>getAndClear()\<close> returns
  the mapping of all counters with their accumulated values and resets them; a counter
  not pushed since the last clear is omitted from the mapping.
\<close>

type_synonym event_buffer = "(string \<times> int) list"

fun push :: "string \<Rightarrow> int \<Rightarrow> event_buffer \<Rightarrow> event_buffer" where
  "push c n [] = [(c, 0 + n)]"
| "push c n ((k, v) # b) = (if k = c then (k, v + n) # b else (k, v) # push c n b)"

definition get_and_clear :: "event_buffer \<Rightarrow> event_buffer \<times> event_buffer" where
  "get_and_clear b = (b, [])"

text \<open>A history of buffer operations, and the snapshots the reads of it return.\<close>

datatype buffer_op = Push string int | GetAndClear

fun run_ops :: "buffer_op list \<Rightarrow> event_buffer \<Rightarrow> event_buffer list \<times> event_buffer" where
  "run_ops [] b = ([], b)"
| "run_ops (Push c n # ops) b = run_ops ops (push c n b)"
| "run_ops (GetAndClear # ops) b =
     (case get_and_clear b of (r, b') \<Rightarrow>
        (case run_ops ops b' of (rs, b'') \<Rightarrow> (r # rs, b'')))"

definition counter :: "string \<Rightarrow> event_buffer \<Rightarrow> int" where
  "counter c b = (case map_of b c of None \<Rightarrow> 0 | Some v \<Rightarrow> v)"

definition buffer_total :: "event_buffer \<Rightarrow> int" where
  "buffer_total b = sum_list (map snd b)"

fun pushed :: "buffer_op list \<Rightarrow> int" where
  "pushed [] = 0"
| "pushed (Push c n # ops) = n + pushed ops"
| "pushed (GetAndClear # ops) = pushed ops"

fun pushed_to :: "string \<Rightarrow> buffer_op list \<Rightarrow> int" where
  "pushed_to c [] = 0"
| "pushed_to c (Push k n # ops) = (if k = c then n else 0) + pushed_to c ops"
| "pushed_to c (GetAndClear # ops) = pushed_to c ops"

section \<open>The instrumented server\<close>

text \<open>
  The constructor's \<^verbatim>\<open>auth\<close> argument: a value (\<^verbatim>\<open>None\<close>, a dictionary of credentials, an
  allow-list, or any other object), or a callable, which receives the client's
  credentials and may raise.
\<close>

datatype auth = AuthVal pyval | AuthFn "pyval \<Rightarrow> error + pyval"

text \<open>One call of \<^verbatim>\<open>self.sio.emit(event, data, to=..., namespace=...)\<close>.\<close>

datatype msg =
  Msg (msg_event: string) (msg_data: pyval) (msg_to: "string option") (msg_namespace: string)

text \<open>
  A background task is the coroutine \<^verbatim>\<open>config(sid)\<close> or the coroutine
  \<^verbatim>\<open>_emit_server_stats()\<close>. The latter is suspended either before its first statement or
  in \<^verbatim>\<open>await self.sio.sleep(...)\<close>, where its locals \<^verbatim>\<open>start_time\<close> and \<^verbatim>\<open>namespaces\<close> are
  live; or it has returned, or raised.
\<close>

datatype stats_pc = Starting | Sleeping real "string list" | Finished | Failed error

datatype task = ConfigTask string | StatsTask stats_pc

text \<open>
  The state: first what the layer reads of the Socket.IO server \<^verbatim>\<open>self.sio\<close>, of its
  manager, of the Engine.IO server \<^verbatim>\<open>self.sio.eio\<close> and of the standard library (none of
  them in this file, so each is a field the theorems quantify over), then the attributes
  of \<^verbatim>\<open>InstrumentedAsyncServer\<close> itself. \<open>emitted\<close> is the log of the calls of
  \<^verbatim>\<open>self.sio.emit\<close>, \<open>tasks\<close> the tasks given to \<^verbatim>\<open>start_background_task\<close>, a task's handle
  its index there. The clock is the sequence of its successive readings.
\<close>

record server =
  sio_get_namespaces :: "string list"
  sio_get_participants :: "string \<Rightarrow> pyval \<Rightarrow> (string \<times> string) list"
  sio_eio_sid_from_sid :: "string \<Rightarrow> string option \<Rightarrow> error + string option"
  sio_get_rooms :: "string \<Rightarrow> string \<Rightarrow> pyval list"
  sio_rooms :: "string \<Rightarrow> (pyval \<Rightarrow> string list option) option"
  sio_handlers :: "string list"
  sio_environ :: "string \<Rightarrow> (string \<times> string) list option"
  eio_sockets :: "(string \<times> bool) list"
  eio_get_socket :: "string option \<Rightarrow> error + bool"
  host_id :: "string option"
  timestamps :: "string \<Rightarrow> real option"
  emitted :: "msg list"
  tasks :: "task list"
  clock :: "nat \<Rightarrow> real"
  reads :: nat
  isoformat :: "real \<Rightarrow> string"
  parse_qs :: "string \<Rightarrow> (string \<times> string list) list"
  HOSTNAME :: string
  PID :: int
  auth :: auth
  admin_namespace :: string
  read_only :: bool
  server_id :: pyval
  mode :: string
  server_stats_interval :: real
  admin_queue :: "(string \<times> pyval) list"
  event_buffer :: event_buffer
  stop_stats_event :: "bool option"
  stats_task :: "nat option"

text \<open>The result of a call: the value returned or the exception raised, and the state.\<close>

type_synonym 'a result = "(error + 'a) \<times> server"

text \<open>\<^verbatim>\<open>time.time()\<close> and \<^verbatim>\<open>datetime.now(timezone.utc)\<close>: the next reading of the clock.\<close>

definition time_now :: "server \<Rightarrow> real \<times> server" where
  "time_now s = (clock s (reads s), s\<lparr>reads := Suc (reads s)\<rparr>)"

definition sio_emit :: "string \<Rightarrow> pyval \<Rightarrow> string option \<Rightarrow> string \<Rightarrow> server \<Rightarrow> server" where
  "sio_emit event data to namespace s = s\<lparr>emitted := emitted s @ [Msg event data to namespace]\<rparr>"

definition start_background_task :: "task \<Rightarrow> server \<Rightarrow> nat \<times> server" where
  "start_background_task t s = (length (tasks s), s\<lparr>tasks := tasks s @ [t]\<rparr>)"

subsection \<open>The constructor\<close>

text \<open>
  \<open>sio\<close> is the server being instrumented: the state whose first group of fields is read.
  \<^verbatim>\<open>instrument()\<close> rebinds the server's methods to the wrappers defined below, which take
  the method they replace as their first argument, and creates the timestamp table.
\<close>

definition init ::
  "server \<Rightarrow> auth \<Rightarrow> string \<Rightarrow> bool \<Rightarrow> pyval \<Rightarrow> string \<Rightarrow> real \<Rightarrow> error + server" where
  "init sio auth' namespace read_only' server_id' mode' server_stats_interval' =
     (case auth' of
        AuthVal PNone \<Rightarrow> Inl (ValueError ''auth must be specified'')
      | _ \<Rightarrow> Inr (sio\<lparr>
        auth := auth',
        admin_namespace := namespace,
        read_only := read_only',
        server_id := (if py_truthy server_id' then server_id'
                      else (case host_id sio of Some h \<Rightarrow> PStr h | None \<Rightarrow> PStr (HOSTNAME sio))),
        mode := mode',
        server_stats_interval := server_stats_interval',
        admin_queue := [],
        event_buffer := [],
        stop_stats_event := None,
        stats_task := None,
        timestamps := (if mode' = ''development'' then Map.empty else timestamps sio)\<rparr>))"

subsection \<open>The socket snapshot\<close>

definition lower_char :: "char \<Rightarrow> char" where
  "lower_char c =
     (let n = (of_char c :: nat)
      in if (65 \<le> n \<and> n \<le> 90) \<or> (192 \<le> n \<and> n \<le> 222 \<and> n \<noteq> 215)
         then char_of (n + 32) else c)"

text \<open>\<^verbatim>\<open>d[k] = v\<close> on the items of a dictionary: a key keeps its place, a new one goes last.\<close>

fun dict_set :: "string \<Rightarrow> pyval \<Rightarrow> (string \<times> pyval) list \<Rightarrow> (string \<times> pyval) list" where
  "dict_set k v [] = [(k, v)]"
| "dict_set k v ((k', v') # d) = (if k' = k then (k', v) # d else (k', v') # dict_set k v d)"

definition environ_get :: "(string \<times> string) list \<Rightarrow> string \<Rightarrow> string \<Rightarrow> string" where
  "environ_get environ k dflt = (case map_of environ k of None \<Rightarrow> dflt | Some v \<Rightarrow> v)"

definition serialize_socket :: "string \<Rightarrow> string \<Rightarrow> string option \<Rightarrow> server \<Rightarrow> error + pyval" where
  "serialize_socket sid namespace eio_sid s =
     (case (case eio_sid of None \<Rightarrow> sio_eio_sid_from_sid s sid None | Some e \<Rightarrow> Inr (Some e)) of
        Inl e \<Rightarrow> Inl e
      | Inr eio_sid' \<Rightarrow>
         (case eio_get_socket s eio_sid' of
            Inl e \<Rightarrow> Inl e
          | Inr upgraded \<Rightarrow>
             (let environ = (case eio_sid' of None \<Rightarrow> []
                             | Some e \<Rightarrow> (case sio_environ s e of None \<Rightarrow> [] | Some env \<Rightarrow> env));
                  tm = timestamps s sid
              in Inr (PDict [
                (''id'', PStr sid),
                (''clientId'', (case eio_sid' of None \<Rightarrow> PNone | Some e \<Rightarrow> PStr e)),
                (''transport'', PStr (if upgraded then ''websocket'' else ''polling'')),
                (''nsp'', PStr namespace),
                (''data'', PDict []),
                (''handshake'', PDict [
                  (''address'', PStr (environ_get environ ''REMOTE_ADDR'' [])),
                  (''headers'', PDict (foldl (\<lambda>d (k, v). dict_set (map lower_char (drop 5 k)) (PStr v) d) []
                      (filter (\<lambda>(k, v). take 5 k = ''HTTP_'') environ))),
                  (''query'', PDict (map (\<lambda>(k, v). (k, case v of [x] \<Rightarrow> PStr x | _ \<Rightarrow> PList (map PStr v)))
                      (parse_qs s (environ_get environ ''QUERY_STRING'' [])))),
                  (''secure'', PBool (environ_get environ ''wsgi.url_scheme'' [] = ''https'')),
                  (''url'', PStr (environ_get environ ''PATH_INFO'' [])),
                  (''issued'', (case tm of None \<Rightarrow> PInt (0 * 1000) | Some t \<Rightarrow> PReal (t * 1000))),
                  (''time'', (case tm of None \<Rightarrow> PStr []
                              | Some t \<Rightarrow> if t \<noteq> 0 then PStr (isoformat s t) else PStr []))]),
                (''rooms'', PList (sio_get_rooms s sid namespace))]))))"

subsection \<open>The admin namespace's connect handler and its follow-up task\<close>

definition admin_connect :: "string \<Rightarrow> (string \<times> string) list \<Rightarrow> pyval \<Rightarrow> server \<Rightarrow> pyval result" where
  "admin_connect sid environ client_auth s =
     (let authenticated =
            (case auth s of
               AuthVal v \<Rightarrow>
                 if py_truthy v then
                   (case v of
                      PDict d \<Rightarrow> Inr (py_eq client_auth v)
                    | PList l \<Rightarrow> Inr (py_in client_auth l)
                    | _ \<Rightarrow> Inl TypeError)
                 else Inr True
             | AuthFn f \<Rightarrow>
                 (case f client_auth of Inl e \<Rightarrow> Inl e | Inr r \<Rightarrow> Inr (py_truthy r)))
      in case authenticated of
           Inl e \<Rightarrow> (Inl e, s)
         | Inr False \<Rightarrow> (Inl (ConnectionRefusedError ''authentication failed''), s)
         | Inr True \<Rightarrow>
            (let s1 = snd (start_background_task (ConfigTask sid) s);
                 s2 = s1\<lparr>stop_stats_event := Some False\<rparr>;
                 (h, s3) = start_background_task (StatsTask Starting) s2
             in (Inr PNone, s3\<lparr>stats_task := Some h\<rparr>)))"

text \<open>
  The loops of \<^verbatim>\<open>config\<close> over the namespaces and their participants. The loop variable
  \<^verbatim>\<open>sid\<close> is the coroutine's parameter rebound, so it is carried along with the list.
\<close>

fun config_participants ::
  "string \<Rightarrow> (string \<times> string) list \<Rightarrow> string \<Rightarrow> pyval list \<Rightarrow> server \<Rightarrow> error + string \<times> pyval list" where
  "config_participants nsp [] sid all_sockets s = Inr (sid, all_sockets)"
| "config_participants nsp ((sid', eio_sid) # ps) sid all_sockets s =
     (case serialize_socket sid' nsp (Some eio_sid) s of
        Inl e \<Rightarrow> Inl e
      | Inr sock \<Rightarrow> config_participants nsp ps sid' (all_sockets @ [sock]) s)"

fun config_namespaces ::
  "string list \<Rightarrow> string \<Rightarrow> pyval list \<Rightarrow> server \<Rightarrow> error + string \<times> pyval list" where
  "config_namespaces [] sid all_sockets s = Inr (sid, all_sockets)"
| "config_namespaces (nsp # nsps) sid all_sockets s =
     (case config_participants nsp (sio_get_participants s nsp PNone) sid all_sockets s of
        Inl e \<Rightarrow> Inl e
      | Inr (sid', all_sockets') \<Rightarrow> config_namespaces nsps sid' all_sockets' s)"

definition config :: "string \<Rightarrow> server \<Rightarrow> pyval result" where
  "config sid s =
     (let features = [''AGGREGATED_EVENTS'']
            @ (if \<not> read_only s
               then [''EMIT'', ''JOIN'', ''LEAVE'', ''DISCONNECT'', ''MJOIN'', ''MLEAVE'', ''MDISCONNECT'']
               else [])
            @ (if mode s = ''development'' then [''ALL_EVENTS''] else []);
          s1 = sio_emit ''config'' (PDict [(''supportedFeatures'', PList (map PStr features))])
                 (Some sid) (admin_namespace s) s
      in if mode s1 = ''development'' then
           (case config_namespaces (sio_get_namespaces s1) sid [] s1 of
              Inl e \<Rightarrow> (Inl e, s1)
            | Inr (sid', all_sockets) \<Rightarrow>
                (Inr PNone, sio_emit ''all_sockets'' (PList all_sockets) (Some sid') (admin_namespace s1) s1))
         else (Inr PNone, s1))"

subsection \<open>The stats publisher\<close>

text \<open>
  \<^verbatim>\<open>while self.admin_queue: event, args = self.admin_queue.pop(0); await self.sio.emit(...)\<close>
\<close>

function drain_queue :: "server \<Rightarrow> server" where
  "drain_queue s =
     (case admin_queue s of
        [] \<Rightarrow> s
      | (event, args) # q \<Rightarrow>
          drain_queue (sio_emit event args None (admin_namespace s) (s\<lparr>admin_queue := q\<rparr>)))"
  by pat_completeness auto
termination
  by (relation "measure (\<lambda>s. length (admin_queue s))") (auto simp: sio_emit_def)

declare drain_queue.simps [simp del]

text \<open>
  \<^verbatim>\<open>len(self.sio.manager.rooms.get(nsp, {None: []}).get(None, []))\<close>
\<close>

definition sockets_count :: "server \<Rightarrow> string \<Rightarrow> int" where
  "sockets_count s nsp =
     (case sio_rooms s nsp of
        None \<Rightarrow> 0
      | Some rooms \<Rightarrow> (case rooms PNone of None \<Rightarrow> 0 | Some members \<Rightarrow> int (length members)))"

text \<open>
  The loop body of \<^verbatim>\<open>_emit_server_stats\<close> from the point where the sleep has completed: the
  \<^verbatim>\<open>server_stats\<close> message, then the queued events.
\<close>

definition stats_report :: "real \<Rightarrow> string list \<Rightarrow> server \<Rightarrow> server" where
  "stats_report start_time namespaces s =
     (let (now, s1) = time_now s;
          (aggregated, buffer') = get_and_clear (event_buffer s1);
          s2 = s1\<lparr>event_buffer := buffer'\<rparr>;
          s3 = sio_emit ''server_stats'' (PDict [
                 (''serverId'', server_id s2),
                 (''hostname'', PStr (HOSTNAME s2)),
                 (''pid'', PInt (PID s2)),
                 (''uptime'', PReal (now - start_time)),
                 (''clientsCount'', PInt (int (length (eio_sockets s2)))),
                 (''pollingClientsCount'',
                    PInt (int (length (filter (\<lambda>(eio_sid, upgraded). \<not> upgraded) (eio_sockets s2))))),
                 (''aggregatedEvents'', PDict (map (\<lambda>(k, v). (k, PInt v)) aggregated)),
                 (''namespaces'', PList (map (\<lambda>nsp. PDict [
                    (''name'', PStr nsp),
                    (''socketsCount'', PInt (sockets_count s2 nsp))]) namespaces))])
                 None (admin_namespace s2) s2
      in drain_queue s3)"

text \<open>
  \<^verbatim>\<open>while not self.stop_stats_event.is_set():\<close> evaluated by task \<open>h\<close>: the task returns, or
  suspends in the sleep.
\<close>

definition loop_test :: "nat \<Rightarrow> real \<Rightarrow> string list \<Rightarrow> server \<Rightarrow> server" where
  "loop_test h start_time namespaces s =
     (case stop_stats_event s of
        None \<Rightarrow> s\<lparr>tasks := (tasks s)[h := StatsTask (Failed AttributeError)]\<rparr>
      | Some True \<Rightarrow> s\<lparr>tasks := (tasks s)[h := StatsTask Finished]\<rparr>
      | Some False \<Rightarrow> s\<lparr>tasks := (tasks s)[h := StatsTask (Sleeping start_time namespaces)]\<rparr>)"

text \<open>
  The event loop resumes task \<open>h\<close>, which runs to its next suspension in the sleep or to
  its end. A task suspended in the sleep is resumed when the interval has elapsed; nothing
  else resumes it.
\<close>

definition stats_resume :: "nat \<Rightarrow> server \<Rightarrow> server" where
  "stats_resume h s =
     (if h < length (tasks s) then
        (case tasks s ! h of
           StatsTask Starting \<Rightarrow>
             (let (start_time, s1) = time_now s;
                  namespaces = sort (sio_handlers s1)
              in loop_test h start_time namespaces s1)
         | StatsTask (Sleeping start_time namespaces) \<Rightarrow>
             loop_test h start_time namespaces (stats_report start_time namespaces s)
         | _ \<Rightarrow> s)
      else s)"


fun is_live_stats :: "task \<Rightarrow> bool" where
  "is_live_stats (StatsTask Starting) = True"
| "is_live_stats (StatsTask (Sleeping start_time namespaces)) = True"
| "is_live_stats _ = False"

definition running_stats :: "server \<Rightarrow> nat" where
  "running_stats s = length (filter is_live_stats (tasks s))"

definition count_stats :: "msg list \<Rightarrow> nat" where
  "count_stats ms = length (filter (\<lambda>m. msg_event m = ''server_stats'') ms)"



subsection \<open>The lifecycle interceptor\<close>

text \<open>
  \<^verbatim>\<open>_trigger_event(event, namespace, *args)\<close> with \<^verbatim>\<open>sid = args[0]\<close>: the server passes the
  connection id first at every dispatch, so \<^verbatim>\<open>*args\<close> is the id and the rest. \<open>orig\<close> is
  \<^verbatim>\<open>self.sio.__trigger_event\<close>, the dispatch that was replaced.
\<close>

definition trigger_event ::
  "(string \<Rightarrow> string \<Rightarrow> pyval list \<Rightarrow> server \<Rightarrow> pyval result) \<Rightarrow>
   string \<Rightarrow> string \<Rightarrow> string \<Rightarrow> pyval list \<Rightarrow> server \<Rightarrow> pyval result" where
  "trigger_event orig event namespace sid rest s =
     (let (t, s0) = time_now s
      in if event = ''connect'' then
           (case sio_eio_sid_from_sid s0 sid (Some namespace) of
              Inl e \<Rightarrow> (Inl e, s0)
            | Inr eio_sid \<Rightarrow>
               (let s1 = s0\<lparr>timestamps := (timestamps s0)(sid \<mapsto> t)\<rparr>
                in case serialize_socket sid namespace eio_sid s1 of
                     Inl e \<Rightarrow> (Inl e, s1)
                   | Inr serialized_socket \<Rightarrow>
                       orig event namespace (PStr sid # rest)
                         (sio_emit ''socket_connected''
                            (PTuple [serialized_socket, PStr (isoformat s1 t)])
                            None (admin_namespace s1) s1)))
         else if event = ''disconnect'' then
           (if timestamps s0 sid = None then (Inl (KeyError sid), s0)
            else
              (let s1 = s0\<lparr>timestamps := (timestamps s0)(sid := None)\<rparr>
               in case rest of
                    [] \<Rightarrow> (Inl IndexError, s1)
                  | reason # rest' \<Rightarrow>
                      orig event namespace (PStr sid # rest)
                        (sio_emit ''socket_disconnected''
                           (PTuple [PStr namespace, PStr sid, reason, PStr (isoformat s1 t)])
                           None (admin_namespace s1) s1)))
         else
           orig event namespace (PStr sid # rest)
             (sio_emit ''event_received''
                (PTuple [PStr namespace, PStr sid, PTuple (PStr event # rest), PStr (isoformat s0 t)])
                None (admin_namespace s0) s0))"

subsection \<open>The control-action interceptor\<close>

text \<open>\<open>orig\<close> is \<^verbatim>\<open>self.sio.manager.__basic_enter_room\<close>.\<close>

definition basic_enter_room ::
  "(string \<Rightarrow> string \<Rightarrow> pyval \<Rightarrow> string option \<Rightarrow> server \<Rightarrow> pyval result) \<Rightarrow>
   string \<Rightarrow> string \<Rightarrow> pyval \<Rightarrow> string option \<Rightarrow> server \<Rightarrow> pyval result" where
  "basic_enter_room orig sid namespace room eio_sid s =
     (case orig sid namespace room eio_sid s of
        (Inl e, s1) \<Rightarrow> (Inl e, s1)
      | (Inr ret, s1) \<Rightarrow>
          if py_truthy room then
            (let (t, s2) = time_now s1
             in (Inr ret, s2\<lparr>admin_queue := admin_queue s2 @
                   [(''room_joined'', PTuple [PStr namespace, room, PStr sid, PStr (isoformat s2 t)])]\<rparr>))
          else (Inr ret, s1))"

text \<open>\<open>orig\<close> is \<^verbatim>\<open>self.sio.manager.__basic_leave_room\<close>.\<close>

definition basic_leave_room ::
  "(string \<Rightarrow> string \<Rightarrow> pyval \<Rightarrow> server \<Rightarrow> pyval result) \<Rightarrow>
   string \<Rightarrow> string \<Rightarrow> pyval \<Rightarrow> server \<Rightarrow> pyval result" where
  "basic_leave_room orig sid namespace room s =
     (let s1 = (if py_truthy room then
                  (let (t, s') = time_now s
                   in s'\<lparr>admin_queue := admin_queue s' @
                        [(''room_left'', PTuple [PStr namespace, room, PStr sid, PStr (isoformat s' t)])]\<rparr>)
                else s)
      in orig sid namespace room s1)"

text \<open>
  \<^verbatim>\<open>for sid, _ in self.sio.manager.get_participants(namespace, room): if sid not in skip_sid: ...\<close>
\<close>

fun event_sent_loop ::
  "string \<Rightarrow> pyval list \<Rightarrow> pyval list \<Rightarrow> (string \<times> string) list \<Rightarrow> server \<Rightarrow> server" where
  "event_sent_loop namespace event_data skip_sid [] s = s"
| "event_sent_loop namespace event_data skip_sid ((sid, eio_sid) # ps) s =
     (if \<not> py_in (PStr sid) skip_sid then
        (let (t, s1) = time_now s
         in event_sent_loop namespace event_data skip_sid ps
              (sio_emit ''event_sent''
                 (PTuple [PStr namespace, PStr sid, PList event_data, PStr (isoformat s1 t)])
                 None (admin_namespace s1) s1))
      else event_sent_loop namespace event_data skip_sid ps s)"

text \<open>
  \<open>orig\<close> is \<^verbatim>\<open>self.sio.manager.__emit\<close>; it receives \<^verbatim>\<open>skip_sid\<close> as the caller gave it.
\<close>

definition emit ::
  "(string \<Rightarrow> pyval \<Rightarrow> string \<Rightarrow> pyval \<Rightarrow> pyval \<Rightarrow> pyval \<Rightarrow> server \<Rightarrow> pyval result) \<Rightarrow>
   string \<Rightarrow> pyval \<Rightarrow> string \<Rightarrow> pyval \<Rightarrow> pyval \<Rightarrow> pyval \<Rightarrow> server \<Rightarrow> pyval result" where
  "emit orig event data namespace room skip_sid callback s =
     (case orig event data namespace room skip_sid callback s of
        (Inl e, s1) \<Rightarrow> (Inl e, s1)
      | (Inr ret, s1) \<Rightarrow>
          if namespace \<noteq> admin_namespace s1 then
            (let event_data = (case data of PTuple xs \<Rightarrow> [PStr event] @ xs | _ \<Rightarrow> [PStr event, data]);
                 skip_sid' = (case skip_sid of PList l \<Rightarrow> l | _ \<Rightarrow> [skip_sid])
             in (Inr ret,
                 event_sent_loop namespace event_data skip_sid'
                   (sio_get_participants s1 namespace room) s1))
          else (Inr ret, s1))"

subsection \<open>The transport traffic interceptor\<close>

text \<open>\<open>orig\<close> is \<^verbatim>\<open>self.sio._handle_eio_connect\<close>.\<close>

definition handle_eio_connect ::
  "(string \<Rightarrow> (string \<times> string) list \<Rightarrow> server \<Rightarrow> pyval result) \<Rightarrow>
   string \<Rightarrow> (string \<times> string) list \<Rightarrow> server \<Rightarrow> pyval result" where
  "handle_eio_connect orig eio_sid environ s =
     (let s1 = (if stop_stats_event s = None then
                  (let s' = s\<lparr>stop_stats_event := Some False\<rparr>;
                       (h, s'') = start_background_task (StatsTask Starting) s'
                   in s''\<lparr>stats_task := Some h\<rparr>)
                else s);
          s2 = s1\<lparr>event_buffer := push ''rawConnection'' 1 (event_buffer s1)\<rparr>
      in orig eio_sid environ s2)"

text \<open>\<open>orig\<close> is \<^verbatim>\<open>self.sio._handle_eio_disconnect\<close>.\<close>

definition handle_eio_disconnect ::
  "(string \<Rightarrow> pyval \<Rightarrow> server \<Rightarrow> pyval result) \<Rightarrow> string \<Rightarrow> pyval \<Rightarrow> server \<Rightarrow> pyval result" where
  "handle_eio_disconnect orig eio_sid reason s =
     orig eio_sid reason (s\<lparr>event_buffer := push ''rawDisconnection'' 1 (event_buffer s)\<rparr>)"

text \<open>\<open>orig\<close> is \<^verbatim>\<open>self.sio.eio.__ok\<close>, which builds the response.\<close>

definition eio_http_response ::
  "(pyval \<Rightarrow> pyval \<Rightarrow> pyval \<Rightarrow> server \<Rightarrow> pyval result) \<Rightarrow>
   pyval \<Rightarrow> pyval \<Rightarrow> pyval \<Rightarrow> server \<Rightarrow> pyval result" where
  "eio_http_response orig packets headers jsonp_index s =
     (case orig packets headers jsonp_index s of
        (Inl e, s1) \<Rightarrow> (Inl e, s1)
      | (Inr ret, s1) \<Rightarrow>
          (let s2 = s1\<lparr>event_buffer := push ''packetsOut'' 1 (event_buffer s1)\<rparr>
           in case py_getitem ret ''response'' of
                Inl e \<Rightarrow> (Inl e, s2)
              | Inr response \<Rightarrow>
                  (case py_len response of
                     Inl e \<Rightarrow> (Inl e, s2)
                   | Inr n \<Rightarrow> (Inr ret, s2\<lparr>event_buffer := push ''bytesOut'' n (event_buffer s2)\<rparr>))))"

text \<open>\<open>orig\<close> is \<^verbatim>\<open>socket.__handle_post_request\<close> of the transport socket.\<close>

definition eio_handle_post_request ::
  "((string \<times> string) list \<Rightarrow> server \<Rightarrow> pyval result) \<Rightarrow>
   (string \<times> string) list \<Rightarrow> server \<Rightarrow> pyval result" where
  "eio_handle_post_request orig environ s =
     (case orig environ s of
        (Inl e, s1) \<Rightarrow> (Inl e, s1)
      | (Inr ret, s1) \<Rightarrow>
          (let s2 = s1\<lparr>event_buffer := push ''packetsIn'' 1 (event_buffer s1)\<rparr>
           in case py_int (case map_of environ ''CONTENT_LENGTH'' of
                             None \<Rightarrow> PInt 0 | Some v \<Rightarrow> PStr v) of
                Inl e \<Rightarrow> (Inl e, s2)
              | Inr n \<Rightarrow> (Inr ret, s2\<lparr>event_buffer := push ''bytesIn'' n (event_buffer s2)\<rparr>)))"

section \<open>A concrete server\<close>

text \<open>
  A server with two namespaces, two connections on the default one, one transport socket
  known to Engine.IO, and a clock that reads 1, 2, 3, ...; the theorems below are
  instantiated on it.
\<close>

definition demo_sio :: server where
  "demo_sio = \<lparr>
     sio_get_namespaces = [''/'', ''/admin''],
     sio_get_participants =
       (\<lambda>nsp room. if nsp = ''/'' then [(''s1'', ''e1''), (''s2'', ''e2'')] else []),
     sio_eio_sid_from_sid = (\<lambda>sid nsp. Inr (if sid = ''s1'' then Some ''e1'' else None)),
     sio_get_rooms = (\<lambda>sid nsp. [PNone, PStr sid]),
     sio_rooms = (\<lambda>nsp. None),
     sio_handlers = [''/'', ''/admin''],
     sio_environ = (\<lambda>e. None),
     eio_sockets = [(''e1'', False)],
     eio_get_socket =
       (\<lambda>e. if e = Some ''e1'' then Inr False else Inl (KeyError ''Session not found'')),
     host_id = None,
     timestamps = Map.empty,
     emitted = [],
     tasks = [],
     clock = (\<lambda>n. real (Suc n)),
     reads = 0,
     isoformat = (\<lambda>t. ''1970-01-01T00:00:01+00:00''),
     parse_qs = (\<lambda>q. []),
     HOSTNAME = ''host'',
     PID = 1,
     auth = AuthVal PNone,
     admin_namespace = [],
     read_only = False,
     server_id = PNone,
     mode = [],
     server_stats_interval = 0,
     admin_queue = [],
     event_buffer = [],
     stop_stats_event = None,
     stats_task = None\<rparr>"

text \<open>
  \<^verbatim>\<open>InstrumentedAsyncServer(sio, auth=a)\<close> with the defaults of the other arguments.
\<close>

definition demo :: "auth \<Rightarrow> server" where
  "demo a =
     (case init demo_sio a ''/admin'' False PNone ''development'' 2 of
        Inr s \<Rightarrow> s
      | Inl e \<Rightarrow> demo_sio)"

text \<open>Collaborators that return \<^verbatim>\<open>None\<close>, and one that raises.\<close>

definition returns_none :: "server \<Rightarrow> pyval result" where
  "returns_none s = (Inr PNone, s)"

definition raises :: "server \<Rightarrow> pyval result" where
  "raises s = (Inl (Raised ''boom''), s)"

text \<open>The response \<^verbatim>\<open>_ok\<close> builds for a payload of 100 bytes.\<close>

definition ok_response :: "pyval \<Rightarrow> pyval \<Rightarrow> pyval \<Rightarrow> server \<Rightarrow> pyval result" where
  "ok_response packets headers jsonp_index s =
     (Inr (PDict [(''status'', PStr ''200 OK''), (''headers'', PList []),
                  (''response'', PBytes (replicate 100 (CHR ''x'')))]), s)"

text \<open>The credentials map of the examples.\<close>

definition demo_credentials :: pyval where
  "demo_credentials = PDict [(''username'', PStr ''admin''), (''password'', PStr ''secret'')]"

text \<open>
  The messages the drain loop publishes for a queue, and the payload of the
  \<^verbatim>\<open>server_stats\<close> message as the loop body computes it from the state it starts in.
\<close>

definition queue_msgs :: "string \<Rightarrow> (string \<times> pyval) list \<Rightarrow> msg list" where
  "queue_msgs nsp q = map (\<lambda>(event, args). Msg event args None nsp) q"

definition stats_payload :: "real \<Rightarrow> string list \<Rightarrow> server \<Rightarrow> pyval" where
  "stats_payload start_time namespaces s = PDict [
     (''serverId'', server_id s),
     (''hostname'', PStr (HOSTNAME s)),
     (''pid'', PInt (PID s)),
     (''uptime'', PReal (clock s (reads s) - start_time)),
     (''clientsCount'', PInt (int (length (eio_sockets s)))),
     (''pollingClientsCount'',
        PInt (int (length (filter (\<lambda>(eio_sid, upgraded). \<not> upgraded) (eio_sockets s))))),
     (''aggregatedEvents'', PDict (map (\<lambda>(k, v). (k, PInt v)) (event_buffer s))),
     (''namespaces'', PList (map (\<lambda>nsp. PDict [
        (''name'', PStr nsp),
        (''socketsCount'', PInt (sockets_count s nsp))]) namespaces))]"

text \<open>
  The server after its first transport connection, and after the admin has then
  connected with the right credentials.
\<close>

definition after_eio_connect :: server where
  "after_eio_connect =
     snd (handle_eio_connect (\<lambda>eio_sid environ. returns_none) ''e1'' [] (demo (AuthVal demo_credentials)))"

definition after_admin_connect :: server where
  "after_admin_connect = snd (admin_connect ''a1'' [] demo_credentials after_eio_connect)"


text \<open>A membership mutation that reports how many queued events it finds.\<close>

definition sees_queue :: "server \<Rightarrow> pyval result" where
  "sees_queue s = (Inr (PInt (int (length (admin_queue s)))), s)"

text \<open>
  The \<^verbatim>\<open>event_sent\<close> messages for a list of recipients, the first stamped with the next
  reading of the clock of \<open>s\<close>, each later one with the reading after.
\<close>

definition event_sent_msgs :: "string \<Rightarrow> pyval list \<Rightarrow> server \<Rightarrow> string list \<Rightarrow> msg list" where
  "event_sent_msgs namespace event_data s sids =
     map (\<lambda>(k, sid). Msg ''event_sent''
            (PTuple [PStr namespace, PStr sid, PList event_data, PStr (isoformat s (clock s k))])
            None (admin_namespace s))
       (enumerate (reads s) sids)"

text \<open>An original dispatch whose handler returns a value, and one whose handler raises.\<close>

definition dispatch_ok :: "string \<Rightarrow> string \<Rightarrow> pyval list \<Rightarrow> server \<Rightarrow> pyval result" where
  "dispatch_ok event namespace args s = (Inr (PStr ''handled''), s)"

definition dispatch_fails :: "string \<Rightarrow> string \<Rightarrow> pyval list \<Rightarrow> server \<Rightarrow> pyval result" where
  "dispatch_fails event namespace args s = (Inl (Raised ''handler failed''), s)"

text \<open>
  The concrete server after the connect of \<^verbatim>\<open>s1\<close> has been dispatched, and after its
  disconnect has been dispatched as well.
\<close>

definition connected_state :: server where
  "connected_state =
     snd (trigger_event dispatch_ok ''connect'' ''/'' ''s1'' [PDict []] (demo (AuthVal demo_credentials)))"

definition disconnected_state :: server where
  "disconnected_state =
     snd (trigger_event dispatch_ok ''disconnect'' ''/'' ''s1'' [PStr ''transport close''] connected_state)"

text \<open>The snapshot of \<^verbatim>\<open>s1\<close> on the concrete server, for a given issue time and time string.\<close>

definition demo_snapshot :: "pyval \<Rightarrow> pyval \<Rightarrow> pyval" where
  "demo_snapshot issued time = PDict [
     (''id'', PStr ''s1''), (''clientId'', PStr ''e1''), (''transport'', PStr ''polling''),
     (''nsp'', PStr ''/''), (''data'', PDict []),
     (''handshake'', PDict [
        (''address'', PStr []), (''headers'', PDict []), (''query'', PDict []),
        (''secure'', PBool False), (''url'', PStr []), (''issued'', issued), (''time'', time)]),
     (''rooms'', PList [PNone, PStr ''s1''])]"

section \<open>The aggregation buffer conserves what is pushed\<close>

lemma buffer_total_Nil: "buffer_total [] = 0"
  by (simp add: buffer_total_def)

lemma counter_Nil: "counter c [] = 0"
  by (simp add: counter_def)

lemma buffer_total_push: "buffer_total (push c n b) = buffer_total b + n"
  by (induction b) (auto simp: buffer_total_def)

lemma counter_push: "counter c (push k n b) = counter c b + (if k = c then n else 0)"
  by (induction b) (auto simp: counter_def)

lemma run_ops_total:
  "sum_list (map buffer_total (fst (run_ops ops b))) + buffer_total (snd (run_ops ops b))
     = buffer_total b + pushed ops"
proof (induction ops b rule: run_ops.induct)
  case (1 b)
  then show ?case by simp
next
  case (2 c n ops b)
  then show ?case by (simp add: buffer_total_push)
next
  case (3 ops b)
  then show ?case by (auto simp: get_and_clear_def buffer_total_Nil split: prod.splits)
qed

lemma run_ops_counter:
  "sum_list (map (counter c) (fst (run_ops ops b))) + counter c (snd (run_ops ops b))
     = counter c b + pushed_to c ops"
proof (induction ops b rule: run_ops.induct)
  case (1 b)
  then show ?case by simp
next
  case (2 k n ops b)
  then show ?case by (simp add: counter_push)
next
  case (3 ops b)
  then show ?case by (auto simp: get_and_clear_def counter_Nil split: prod.splits)
qed

lemma run_ops_append:
  "run_ops (xs @ ys) b =
     (case run_ops xs b of (rs, b') \<Rightarrow>
        (case run_ops ys b' of (rs', b'') \<Rightarrow> (rs @ rs', b'')))"
  by (induction xs b rule: run_ops.induct) (auto split: prod.splits)

lemma pushed_append: "pushed (xs @ ys) = pushed xs + pushed ys"
  by (induction xs rule: pushed.induct) auto

lemma pushed_to_append: "pushed_to c (xs @ ys) = pushed_to c xs + pushed_to c ys"
  by (induction xs rule: pushed_to.induct) auto

lemma run_ops_final_clear: "snd (run_ops (ops @ [GetAndClear]) b) = []"
  by (simp add: run_ops_append get_and_clear_def split: prod.splits)

text \<open>
  C8. Whatever pushes and reads are made on a fresh buffer, what the reads have returned
  plus what is still in the buffer is what was pushed, in total and counter by counter;
  so once a read closes the history, the values read add up to the amounts pushed: no
  push is lost and none is read twice. A read that follows a read with no push between
  them returns the empty mapping.
\<close>

theorem event_buffer_conservation:
  "sum_list (map buffer_total (fst (run_ops ops []))) + buffer_total (snd (run_ops ops []))
     = pushed ops
   \<and> sum_list (map (counter c) (fst (run_ops ops []))) + counter c (snd (run_ops ops []))
       = pushed_to c ops
   \<and> sum_list (map buffer_total (fst (run_ops (ops @ [GetAndClear]) []))) = pushed ops
   \<and> sum_list (map (counter c) (fst (run_ops (ops @ [GetAndClear]) []))) = pushed_to c ops
   \<and> fst (get_and_clear (snd (get_and_clear b))) = []
   \<and> fst (run_ops (ops @ [GetAndClear, GetAndClear]) [])
       = fst (run_ops (ops @ [GetAndClear]) []) @ [[]]"
proof -
  have a: "sum_list (map buffer_total (fst (run_ops ops [])))
             + buffer_total (snd (run_ops ops [])) = pushed ops"
    using run_ops_total [of ops "[]"] by (simp add: buffer_total_Nil)
  have b: "sum_list (map (counter c) (fst (run_ops ops [])))
             + counter c (snd (run_ops ops [])) = pushed_to c ops"
    using run_ops_counter [of c ops "[]"] by (simp add: counter_Nil)
  have c: "sum_list (map buffer_total (fst (run_ops (ops @ [GetAndClear]) []))) = pushed ops"
    using run_ops_total [of "ops @ [GetAndClear]" "[]"]
    by (simp add: run_ops_final_clear pushed_append buffer_total_Nil)
  have d: "sum_list (map (counter c) (fst (run_ops (ops @ [GetAndClear]) [])))
             = pushed_to c ops"
    using run_ops_counter [of c "ops @ [GetAndClear]" "[]"]
    by (simp add: run_ops_final_clear pushed_to_append counter_Nil)
  have e: "fst (get_and_clear (snd (get_and_clear b))) = []"
    by (simp add: get_and_clear_def)
  have f: "fst (run_ops (ops @ [GetAndClear, GetAndClear]) [])
             = fst (run_ops (ops @ [GetAndClear]) []) @ [[]]"
    by (simp add: run_ops_append get_and_clear_def split: prod.splits)
  from a b c d e f show ?thesis by blast
qed

section \<open>Transport counters\<close>

lemma int_of_str_100: "int_of_str ''100'' = Inr 100"
  by (simp add: int_of_str_def int_of_literal_def strip_def is_space_def is_ascii_space_def
      is_digit_def digit_val_def max_str_digits_def)

text \<open>
  A literal that opens with the unit separator (31) or closes with the file separator (28)
  is refused, as is one with a doubled underscore; next line and no-break space around the
  digits are stripped from a \<^verbatim>\<open>str\<close> and refused in \<^verbatim>\<open>bytes\<close>.
\<close>

lemma int_of_str_separators:
  "int_of_str [CHR 0x1F, CHR ''5''] = Inl (ValueError [CHR 0x1F, CHR ''5''])
   \<and> int_of_str [CHR ''5'', CHR 0x1C] = Inl (ValueError [CHR ''5'', CHR 0x1C])
   \<and> int_of_str ''1__0'' = Inl (ValueError ''1__0'')
   \<and> int_of_str [CHR 0xA0, CHR ''5'', CHR 0x85] = Inr 5
   \<and> int_of_bytes [CHR 0xA0, CHR ''5''] = Inl (ValueError [CHR 0xA0, CHR ''5''])
   \<and> int_of_str '' -1_0 '' = Inr (- 10)"
  by (simp add: int_of_str_def int_of_bytes_def int_of_literal_def strip_def is_space_def
      is_ascii_space_def is_digit_def digit_val_def max_str_digits_def)

text \<open>
  C9. When the wrapped \<^verbatim>\<open>_ok\<close> has produced a response whose body has length \<open>n\<close>, the
  wrapper returns that response unchanged and the buffer has received one push of 1 to
  \<^verbatim>\<open>packetsOut\<close> and one of \<open>n\<close> to \<^verbatim>\<open>bytesOut\<close>. When the wrapped request handler has
  returned and \<^verbatim>\<open>int\<close> reads the \<^verbatim>\<open>CONTENT_LENGTH\<close> entry of the environment as \<open>m\<close> (the
  default 0 when there is no entry), the wrapper returns the handler's value and the
  buffer has received one push of 1 to \<^verbatim>\<open>packetsIn\<close> and one of \<open>m\<close> to \<^verbatim>\<open>bytesIn\<close>; nothing
  else in the state differs.
\<close>

theorem transport_counters:
  "(orig packets headers jsonp_index s = (Inr ret, s1) \<and>
    py_getitem ret ''response'' = Inr body \<and> py_len body = Inr n \<longrightarrow>
      eio_http_response orig packets headers jsonp_index s
        = (Inr ret, s1\<lparr>event_buffer := push ''bytesOut'' n (push ''packetsOut'' 1 (event_buffer s1))\<rparr>)
      \<and> counter ''packetsOut'' (event_buffer (snd (eio_http_response orig packets headers jsonp_index s)))
          = counter ''packetsOut'' (event_buffer s1) + 1
      \<and> counter ''bytesOut'' (event_buffer (snd (eio_http_response orig packets headers jsonp_index s)))
          = counter ''bytesOut'' (event_buffer s1) + n)
   \<and> (orig' environ s = (Inr ret, s1) \<and>
       py_int (case map_of environ ''CONTENT_LENGTH'' of None \<Rightarrow> PInt 0 | Some v \<Rightarrow> PStr v) = Inr m \<longrightarrow>
      eio_handle_post_request orig' environ s
        = (Inr ret, s1\<lparr>event_buffer := push ''bytesIn'' m (push ''packetsIn'' 1 (event_buffer s1))\<rparr>)
      \<and> counter ''packetsIn'' (event_buffer (snd (eio_handle_post_request orig' environ s)))
          = counter ''packetsIn'' (event_buffer s1) + 1
      \<and> counter ''bytesIn'' (event_buffer (snd (eio_handle_post_request orig' environ s)))
          = counter ''bytesIn'' (event_buffer s1) + m
      \<and> (map_of environ ''CONTENT_LENGTH'' = None \<longrightarrow> m = 0))"
  by (auto simp: eio_http_response_def eio_handle_post_request_def counter_push Let_def)

text \<open>
  One response of 100 bytes on a fresh server: \<^verbatim>\<open>packetsOut\<close> is 1 and \<^verbatim>\<open>bytesOut\<close> is 100;
  one request declaring 100 bytes: \<^verbatim>\<open>packetsIn\<close> is 1 and \<^verbatim>\<open>bytesIn\<close> is 100; one request
  declaring nothing: \<^verbatim>\<open>bytesIn\<close> is 0.
\<close>

theorem transport_counters_witness:
  "counter ''packetsOut'' (event_buffer (snd
      (eio_http_response ok_response PNone PNone PNone (demo (AuthVal (PBool False)))))) = 1
   \<and> counter ''bytesOut'' (event_buffer (snd
      (eio_http_response ok_response PNone PNone PNone (demo (AuthVal (PBool False)))))) = 100
   \<and> counter ''packetsIn'' (event_buffer (snd
      (eio_handle_post_request (\<lambda>environ. returns_none) [(''CONTENT_LENGTH'', ''100'')]
         (demo (AuthVal (PBool False)))))) = 1
   \<and> counter ''bytesIn'' (event_buffer (snd
      (eio_handle_post_request (\<lambda>environ. returns_none) [(''CONTENT_LENGTH'', ''100'')]
         (demo (AuthVal (PBool False)))))) = 100
   \<and> counter ''bytesIn'' (event_buffer (snd
      (eio_handle_post_request (\<lambda>environ. returns_none) [] (demo (AuthVal (PBool False)))))) = 0"
proof -
  let ?s = "demo (AuthVal (PBool False))"
  let ?body = "PBytes (replicate 100 (CHR ''x''))"
  let ?ret = "PDict [(''status'', PStr ''200 OK''), (''headers'', PList []), (''response'', ?body)]"
  have eb: "event_buffer ?s = []"
    by (simp add: demo_def init_def demo_sio_def)
  have a: "ok_response PNone PNone PNone ?s = (Inr ?ret, ?s) \<and>
      py_getitem ?ret ''response'' = Inr ?body \<and> py_len ?body = Inr 100"
    by (simp add: ok_response_def)
  have b: "(\<lambda>environ. returns_none) [(''CONTENT_LENGTH'', ''100'')] ?s = (Inr PNone, ?s) \<and>
      py_int (case map_of [(''CONTENT_LENGTH'', ''100'')] ''CONTENT_LENGTH'' of
                None \<Rightarrow> PInt 0 | Some v \<Rightarrow> PStr v) = Inr 100"
    by (simp add: returns_none_def int_of_str_100)
  have c: "(\<lambda>environ. returns_none) [] ?s = (Inr PNone, ?s) \<and>
      py_int (case map_of ([] :: (string \<times> string) list) ''CONTENT_LENGTH'' of
                None \<Rightarrow> PInt 0 | Some v \<Rightarrow> PStr v) = Inr 0"
    by (simp add: returns_none_def)
  from a transport_counters
    [of ok_response PNone PNone PNone ?s ?ret ?s ?body 100]
  have r1: "counter ''packetsOut'' (event_buffer (snd
        (eio_http_response ok_response PNone PNone PNone ?s))) = 1
     \<and> counter ''bytesOut'' (event_buffer (snd
        (eio_http_response ok_response PNone PNone PNone ?s))) = 100"
    by (simp add: eb counter_def)
  from b transport_counters
    [where orig' = "\<lambda>environ. returns_none" and environ = "[(''CONTENT_LENGTH'', ''100'')]"
       and s = ?s and ret = PNone and ?s1.0 = ?s and m = 100]
  have r2: "counter ''packetsIn'' (event_buffer (snd
        (eio_handle_post_request (\<lambda>environ. returns_none) [(''CONTENT_LENGTH'', ''100'')] ?s))) = 1
     \<and> counter ''bytesIn'' (event_buffer (snd
        (eio_handle_post_request (\<lambda>environ. returns_none) [(''CONTENT_LENGTH'', ''100'')] ?s))) = 100"
    by (simp add: eb counter_def)
  from c transport_counters
    [where orig' = "\<lambda>environ. returns_none" and environ = "[]"
       and s = ?s and ret = PNone and ?s1.0 = ?s and m = 0]
  have r3: "counter ''bytesIn'' (event_buffer (snd
        (eio_handle_post_request (\<lambda>environ. returns_none) [] ?s))) = 0"
    by (simp add: eb counter_def)
  from r1 r2 r3 show ?thesis by blast
qed

section \<open>Authentication of the admin namespace\<close>

text \<open>
  C10. The constructor raises exactly when the authenticator is \<^verbatim>\<open>None\<close>. Any other value
  that tests false (an empty dictionary, an empty list, \<^verbatim>\<open>False\<close>, ...) passes the
  constructor, and then \<^verbatim>\<open>if self.auth:\<close> skips authentication: every connection to the
  admin namespace is accepted, whatever credentials it supplies.
\<close>

theorem falsy_auth_disables_authentication:
  "(isl (init sio a namespace ro sid m i) \<longleftrightarrow> a = AuthVal PNone)
   \<and> (v \<noteq> PNone \<and> \<not> py_truthy v \<longrightarrow>
        (\<exists>s. init sio (AuthVal v) namespace ro sid m i = Inr s \<and> auth s = AuthVal v)
        \<and> (\<forall>s. auth s = AuthVal v \<longrightarrow> fst (admin_connect c environ client_auth s) = Inr PNone))"
proof -
  have a: "isl (init sio a namespace ro sid m i) \<longleftrightarrow> a = AuthVal PNone"
    by (simp add: init_def split: auth.splits pyval.splits)
  have b: "\<exists>s. init sio (AuthVal v) namespace ro sid m i = Inr s \<and> auth s = AuthVal v" if "v \<noteq> PNone"
    using that by (cases v) (simp_all add: init_def)
  have c: "fst (admin_connect c environ client_auth s) = Inr PNone"
    if "\<not> py_truthy v" "auth s = AuthVal v" for s
    using that by (simp add: admin_connect_def start_background_task_def Let_def)
  from a b c show ?thesis by blast
qed

text \<open>
  With an empty credentials map a client with foreign credentials is let in, and with an
  empty allow-list a client with none.
\<close>

theorem falsy_auth_disables_authentication_witness:
  "(\<exists>s. init demo_sio (AuthVal (PDict [])) ''/admin'' False PNone ''development'' 2 = Inr s
        \<and> auth s = AuthVal (PDict []))
   \<and> fst (admin_connect ''a1'' [] (PDict [(''username'', PStr ''mallory'')]) (demo (AuthVal (PDict []))))
       = Inr PNone
   \<and> fst (admin_connect ''a1'' [] PNone (demo (AuthVal (PList [])))) = Inr PNone"
proof -
  have d: "auth (demo (AuthVal (PDict []))) = AuthVal (PDict [])"
    by (simp add: demo_def init_def)
  have l: "auth (demo (AuthVal (PList []))) = AuthVal (PList [])"
    by (simp add: demo_def init_def)
  from falsy_auth_disables_authentication
    [of demo_sio "AuthVal (PDict [])" "''/admin''" False PNone "''development''" 2 "PDict []"
        "''a1''" "[]" "PDict [(''username'', PStr ''mallory'')]"] d
  have r1: "(\<exists>s. init demo_sio (AuthVal (PDict [])) ''/admin'' False PNone ''development'' 2 = Inr s
        \<and> auth s = AuthVal (PDict []))
   \<and> fst (admin_connect ''a1'' [] (PDict [(''username'', PStr ''mallory'')]) (demo (AuthVal (PDict []))))
       = Inr PNone"
    by simp
  from falsy_auth_disables_authentication
    [of demo_sio "AuthVal (PList [])" "''/admin''" False PNone "''development''" 2 "PList []"
        "''a1''" "[]" PNone] l
  have r2: "fst (admin_connect ''a1'' [] PNone (demo (AuthVal (PList [])))) = Inr PNone"
    by simp
  from r1 r2 show ?thesis by blast
qed

text \<open>
  The \<^verbatim>\<open>config\<close> message for a connection is what its \<^verbatim>\<open>config\<close> task publishes first;
  \<^verbatim>\<open>admin_connect\<close> itself publishes nothing.
\<close>

lemma config_sends_config_first:
  "\<exists>features rest.
     emitted (snd (config sid s))
       = emitted s @ Msg ''config'' (PDict [(''supportedFeatures'', PList features)]) (Some sid)
                       (admin_namespace s) # rest"
  by (auto simp: config_def sio_emit_def Let_def split: sum.splits prod.splits)

lemma admin_connect_emits_nothing:
  "emitted (snd (admin_connect sid environ client_auth s)) = emitted s"
  by (auto simp: admin_connect_def start_background_task_def Let_def
      split: auth.splits pyval.splits sum.splits bool.splits)

text \<open>
  C3, as stated, fails for the empty credentials map: it is a dictionary, it tests false,
  and the connection of a client whose credentials differ from it is accepted, its
  \<^verbatim>\<open>config\<close> task scheduled.
\<close>

theorem empty_credentials_map_accepts_mismatch:
  "\<not> py_eq (PDict [(''username'', PStr ''mallory'')]) (PDict [])
   \<and> admin_connect ''a1'' [] (PDict [(''username'', PStr ''mallory'')]) (demo (AuthVal (PDict [])))
       = (Inr PNone, (demo (AuthVal (PDict [])))\<lparr>
            tasks := [ConfigTask ''a1'', StatsTask Starting],
            stop_stats_event := Some False,
            stats_task := Some 1\<rparr>)"
  by (simp add: admin_connect_def start_background_task_def demo_def init_def demo_sio_def)

text \<open>
  C3, amended. Against a credentials map that is not empty, a connection is accepted
  exactly when the supplied credentials equal the map. When they do, the \<^verbatim>\<open>config\<close> task
  and a stats task are scheduled and the handle and stop event recorded; when they do not,
  \<^verbatim>\<open>ConnectionRefusedError('authentication failed')\<close> is raised and the state is untouched:
  no task is scheduled for the connection, so no \<^verbatim>\<open>config\<close> message is sent to it.
\<close>

theorem credentials_map_authentication:
  "auth s = AuthVal (PDict d) \<and> d \<noteq> [] \<longrightarrow>
     (py_eq client_auth (PDict d) \<longrightarrow>
        admin_connect sid environ client_auth s
          = (Inr PNone, s\<lparr>
               tasks := tasks s @ [ConfigTask sid, StatsTask Starting],
               stop_stats_event := Some False,
               stats_task := Some (Suc (length (tasks s)))\<rparr>))
     \<and> (\<not> py_eq client_auth (PDict d) \<longrightarrow>
        admin_connect sid environ client_auth s
          = (Inl (ConnectionRefusedError ''authentication failed''), s))"
  by (simp add: admin_connect_def start_background_task_def)

text \<open>
  Against the map of a user name and a password, the same items in another order are
  accepted, and a wrong password is refused with the state as it was.
\<close>

theorem credentials_map_authentication_witness:
  "fst (admin_connect ''a1'' [] (PDict [(''password'', PStr ''secret''), (''username'', PStr ''admin'')])
          (demo (AuthVal demo_credentials))) = Inr PNone
   \<and> admin_connect ''a2'' [] (PDict [(''username'', PStr ''admin''), (''password'', PStr ''guess'')])
          (demo (AuthVal demo_credentials))
       = (Inl (ConnectionRefusedError ''authentication failed''), demo (AuthVal demo_credentials))"
proof -
  let ?d = "[(''username'', PStr ''admin''), (''password'', PStr ''secret'')]"
  have a: "auth (demo (AuthVal demo_credentials)) = AuthVal (PDict ?d) \<and> ?d \<noteq> []"
    by (simp add: demo_def init_def demo_credentials_def)
  have e1: "py_eq (PDict [(''password'', PStr ''secret''), (''username'', PStr ''admin'')]) (PDict ?d)"
    by simp
  have e2: "\<not> py_eq (PDict [(''username'', PStr ''admin''), (''password'', PStr ''guess'')]) (PDict ?d)"
    by simp
  from a e1 credentials_map_authentication
    [of "demo (AuthVal demo_credentials)" ?d
        "PDict [(''password'', PStr ''secret''), (''username'', PStr ''admin'')]" "''a1''" "[]"]
  have r1: "fst (admin_connect ''a1'' [] (PDict [(''password'', PStr ''secret''), (''username'', PStr ''admin'')])
          (demo (AuthVal demo_credentials))) = Inr PNone"
    by simp
  from a e2 credentials_map_authentication
    [of "demo (AuthVal demo_credentials)" ?d
        "PDict [(''username'', PStr ''admin''), (''password'', PStr ''guess'')]" "''a2''" "[]"]
  have r2: "admin_connect ''a2'' [] (PDict [(''username'', PStr ''admin''), (''password'', PStr ''guess'')])
          (demo (AuthVal demo_credentials))
       = (Inl (ConnectionRefusedError ''authentication failed''), demo (AuthVal demo_credentials))"
    by simp
  from r1 r2 show ?thesis by blast
qed

section \<open>The stats publisher\<close>

lemma drain_queue_Nil: "admin_queue s = [] \<Longrightarrow> drain_queue s = s"
  by (subst drain_queue.simps) simp

lemma drain_queue_Cons:
  "admin_queue s = (event, args) # q \<Longrightarrow>
   drain_queue s = drain_queue (sio_emit event args None (admin_namespace s) (s\<lparr>admin_queue := q\<rparr>))"
  by (subst drain_queue.simps) simp

lemma drain_queue_eq:
  "admin_queue s = q \<Longrightarrow>
   drain_queue s = s\<lparr>emitted := emitted s @ queue_msgs (admin_namespace s) q, admin_queue := []\<rparr>"
proof (induction q arbitrary: s)
  case Nil
  then show ?case by (simp add: drain_queue_Nil queue_msgs_def)
next
  case (Cons x q)
  obtain event args where x: "x = (event, args)" by (cases x)
  let ?s' = "sio_emit event args None (admin_namespace s) (s\<lparr>admin_queue := q\<rparr>)"
  have q': "admin_queue ?s' = q" by (simp add: sio_emit_def)
  have "drain_queue s = drain_queue ?s'"
    using Cons.prems x by (simp add: drain_queue_Cons)
  also have "\<dots> = ?s'\<lparr>emitted := emitted ?s' @ queue_msgs (admin_namespace ?s') q, admin_queue := []\<rparr>"
    using Cons.IH [OF q'] .
  also have "\<dots> = s\<lparr>emitted := emitted s @ queue_msgs (admin_namespace s) (x # q), admin_queue := []\<rparr>"
    by (simp add: sio_emit_def queue_msgs_def x)
  finally show ?case .
qed

lemma stats_report_eq:
  "stats_report start_time namespaces s =
     s\<lparr>reads := Suc (reads s), event_buffer := [],
       emitted := emitted s
         @ Msg ''server_stats'' (stats_payload start_time namespaces s) None (admin_namespace s)
         # queue_msgs (admin_namespace s) (admin_queue s),
       admin_queue := []\<rparr>"
  by (simp add: stats_report_def time_now_def get_and_clear_def drain_queue_eq sio_emit_def
      stats_payload_def sockets_count_def)

lemma count_stats_append: "count_stats (xs @ ys) = count_stats xs + count_stats ys"
  by (simp add: count_stats_def)

lemma count_stats_Cons:
  "count_stats (m # ms) = (if msg_event m = ''server_stats'' then 1 else 0) + count_stats ms"
  by (simp add: count_stats_def)

lemma count_stats_Nil: "count_stats [] = 0"
  by (simp add: count_stats_def)

lemma after_eio_connect_eq:
  "after_eio_connect = (demo (AuthVal demo_credentials))\<lparr>
      tasks := [StatsTask Starting], stop_stats_event := Some False, stats_task := Some 0,
      event_buffer := [(''rawConnection'', 1)]\<rparr>"
  by (simp add: after_eio_connect_def handle_eio_connect_def start_background_task_def
      returns_none_def demo_def init_def demo_sio_def demo_credentials_def)

lemma after_admin_connect_eq:
  "after_admin_connect = (demo (AuthVal demo_credentials))\<lparr>
      tasks := [StatsTask Starting, ConfigTask ''a1'', StatsTask Starting],
      stop_stats_event := Some False, stats_task := Some 2,
      event_buffer := [(''rawConnection'', 1)]\<rparr>"
  by (simp add: after_admin_connect_def after_eio_connect_eq admin_connect_def
      start_background_task_def demo_def init_def demo_sio_def demo_credentials_def)

lemma admin_connect_adds_stats_task:
  "fst (admin_connect sid environ client_auth s) = Inr r \<Longrightarrow>
   running_stats (snd (admin_connect sid environ client_auth s)) = Suc (running_stats s)"
  by (auto simp: admin_connect_def start_background_task_def running_stats_def Let_def
      split: auth.splits if_splits pyval.splits sum.splits bool.splits)

text \<open>
  C1. \<^verbatim>\<open>_handle_eio_connect\<close> starts the stats task only when no stop event exists, but
  \<^verbatim>\<open>admin_connect\<close> has no such test: every accepted admin connection creates a new stop
  event and starts one more stats task. The admin reaches the server over a transport
  connection, so the first admin connection already finds a task running: after it two
  tasks are live, \<^verbatim>\<open>self.stats_task\<close> names the second only, and when both have slept one
  interval two \<^verbatim>\<open>server_stats\<close> messages have been published.
\<close>

theorem admin_connect_starts_second_stats_task:
  "running_stats after_eio_connect = 1
   \<and> fst (admin_connect ''a1'' [] demo_credentials after_eio_connect) = Inr PNone
   \<and> running_stats after_admin_connect = 2
   \<and> tasks after_admin_connect = [StatsTask Starting, ConfigTask ''a1'', StatsTask Starting]
   \<and> count_stats (emitted
        (stats_resume 2 (stats_resume 0 (stats_resume 2 (stats_resume 0 after_admin_connect))))) = 2"
proof -
  have a: "running_stats after_eio_connect = 1"
    by (simp add: after_eio_connect_eq running_stats_def)
  have b: "fst (admin_connect ''a1'' [] demo_credentials after_eio_connect) = Inr PNone"
    by (simp add: after_eio_connect_eq admin_connect_def start_background_task_def
        demo_def init_def demo_sio_def demo_credentials_def)
  have c: "running_stats after_admin_connect = 2"
    by (simp add: after_admin_connect_eq running_stats_def)
  have d: "tasks after_admin_connect = [StatsTask Starting, ConfigTask ''a1'', StatsTask Starting]"
    by (simp add: after_admin_connect_eq)
  have e: "count_stats (emitted
        (stats_resume 2 (stats_resume 0 (stats_resume 2 (stats_resume 0 after_admin_connect))))) = 2"
    by (simp add: after_admin_connect_eq stats_resume_def loop_test_def time_now_def
        stats_report_eq count_stats_def queue_msgs_def demo_def init_def demo_sio_def
        demo_credentials_def)
  from a b c d e show ?thesis by blast
qed












section \<open>Room events\<close>

text \<open>
  C4, as stated, fails for leaving a room: \<^verbatim>\<open>_basic_leave_room\<close> appends the entry first and
  delegates afterwards. The underlying mutation finds one queued entry when called for a
  leave and none when called for a join; and when it raises, the \<^verbatim>\<open>room_left\<close> entry is
  already queued, while a join whose mutation raises queues nothing.
\<close>

theorem room_left_queued_before_delegation:
  "fst (basic_leave_room (\<lambda>sid namespace room. sees_queue) ''s1'' ''/chat'' (PStr ''general'')
          (demo (AuthVal demo_credentials))) = Inr (PInt 1)
   \<and> fst (basic_enter_room (\<lambda>sid namespace room eio_sid. sees_queue) ''s1'' ''/chat'' (PStr ''general'') None
          (demo (AuthVal demo_credentials))) = Inr (PInt 0)
   \<and> fst (basic_leave_room (\<lambda>sid namespace room. raises) ''s1'' ''/chat'' (PStr ''general'')
          (demo (AuthVal demo_credentials))) = Inl (Raised ''boom'')
   \<and> map fst (admin_queue (snd (basic_leave_room (\<lambda>sid namespace room. raises) ''s1'' ''/chat''
          (PStr ''general'') (demo (AuthVal demo_credentials))))) = [''room_left'']
   \<and> admin_queue (snd (basic_enter_room (\<lambda>sid namespace room eio_sid. raises) ''s1'' ''/chat''
          (PStr ''general'') None (demo (AuthVal demo_credentials)))) = []"
  by (simp add: basic_leave_room_def basic_enter_room_def sees_queue_def raises_def time_now_def
      demo_def init_def demo_sio_def demo_credentials_def)

text \<open>
  C4, amended. A join delegates first and, when the mutation has returned, appends the
  \<^verbatim>\<open>room_joined\<close> entry (namespace, room, connection id, time) if and only if the room tests
  true (for a string: is not empty), returning the mutation's value; when the mutation
  raises, nothing is appended. A leave appends the \<^verbatim>\<open>room_left\<close> entry under the same
  condition and then delegates, its result being the mutation's. Neither publishes
  anything: the log of emitted messages is untouched. The publisher's loop body publishes
  the \<^verbatim>\<open>server_stats\<close> message and directly after it the queued entries, each as its own
  message with the entry's name and payload, in the order of the queue, and leaves the
  queue empty.
\<close>

theorem room_events_queued_then_flushed:
  "(orig sid namespace room eio_sid s = (Inr ret, s1) \<longrightarrow>
      basic_enter_room orig sid namespace room eio_sid s =
        (Inr ret,
         if py_truthy room then
           s1\<lparr>reads := Suc (reads s1),
              admin_queue := admin_queue s1 @
                [(''room_joined'', PTuple [PStr namespace, room, PStr sid,
                                           PStr (isoformat s1 (clock s1 (reads s1)))])]\<rparr>
         else s1))
   \<and> (orig sid namespace room eio_sid s = (Inl e, s1) \<longrightarrow>
      basic_enter_room orig sid namespace room eio_sid s = (Inl e, s1))
   \<and> basic_leave_room orig' sid namespace room s =
        orig' sid namespace room
          (if py_truthy room then
             s\<lparr>reads := Suc (reads s),
               admin_queue := admin_queue s @
                 [(''room_left'', PTuple [PStr namespace, room, PStr sid,
                                          PStr (isoformat s (clock s (reads s)))])]\<rparr>
           else s)
   \<and> emitted (stats_report start_time namespaces s) =
        emitted s
          @ Msg ''server_stats'' (stats_payload start_time namespaces s) None (admin_namespace s)
          # queue_msgs (admin_namespace s) (admin_queue s)
   \<and> admin_queue (stats_report start_time namespaces s) = []
   \<and> map msg_event (queue_msgs (admin_namespace s) (admin_queue s)) = map fst (admin_queue s)
   \<and> map msg_data (queue_msgs (admin_namespace s) (admin_queue s)) = map snd (admin_queue s)"
  by (simp add: basic_enter_room_def basic_leave_room_def time_now_def stats_report_eq
      queue_msgs_def case_prod_unfold comp_def)

text \<open>
  Connection \<^verbatim>\<open>C\<close> joins room \<^verbatim>\<open>general\<close> of \<^verbatim>\<open>/chat\<close>: the entry is queued; joining the room
  \<^verbatim>\<open>None\<close> queues nothing; a join then a leave are flushed in that order after the stats.
\<close>

theorem room_events_queued_then_flushed_witness:
  "basic_enter_room (\<lambda>sid namespace room eio_sid. returns_none) ''C'' ''/chat'' (PStr ''general'') None
       (demo (AuthVal demo_credentials))
     = (Inr PNone, (demo (AuthVal demo_credentials))\<lparr>reads := 1, admin_queue :=
          [(''room_joined'', PTuple [PStr ''/chat'', PStr ''general'', PStr ''C'',
                                     PStr ''1970-01-01T00:00:01+00:00''])]\<rparr>)
   \<and> basic_enter_room (\<lambda>sid namespace room eio_sid. returns_none) ''C'' ''/chat'' PNone None
       (demo (AuthVal demo_credentials))
     = (Inr PNone, demo (AuthVal demo_credentials))
   \<and> basic_enter_room (\<lambda>sid namespace room eio_sid. raises) ''C'' ''/chat'' (PStr ''general'') None
       (demo (AuthVal demo_credentials))
     = (Inl (Raised ''boom''), demo (AuthVal demo_credentials))
   \<and> map msg_event (emitted (stats_report 0 []
         (snd (basic_leave_room (\<lambda>sid namespace room. returns_none) ''C'' ''/chat'' (PStr ''general'')
            (snd (basic_enter_room (\<lambda>sid namespace room eio_sid. returns_none) ''C'' ''/chat''
               (PStr ''general'') None (demo (AuthVal demo_credentials))))))))
     = [''server_stats'', ''room_joined'', ''room_left'']"
proof -
  let ?s = "demo (AuthVal demo_credentials)"
  let ?ok = "\<lambda>(sid :: string) (namespace :: string) (room :: pyval) (eio_sid :: string option). returns_none"
  let ?ok' = "\<lambda>(sid :: string) (namespace :: string) (room :: pyval). returns_none"
  let ?bad = "\<lambda>(sid :: string) (namespace :: string) (room :: pyval) (eio_sid :: string option). raises"
  have f: "reads ?s = 0 \<and> admin_queue ?s = [] \<and> clock ?s 0 = 1 \<and> emitted ?s = []
           \<and> isoformat ?s 1 = ''1970-01-01T00:00:01+00:00''"
    by (simp add: demo_def init_def demo_sio_def demo_credentials_def)
  have r1: "basic_enter_room ?ok ''C'' ''/chat'' (PStr ''general'') None ?s
     = (Inr PNone, ?s\<lparr>reads := 1, admin_queue :=
          [(''room_joined'', PTuple [PStr ''/chat'', PStr ''general'', PStr ''C'',
                                     PStr ''1970-01-01T00:00:01+00:00''])]\<rparr>)"
    using f room_events_queued_then_flushed
      [where orig = ?ok and sid = "''C''" and namespace = "''/chat''" and room = "PStr ''general''"
         and eio_sid = None and s = ?s and ret = PNone and ?s1.0 = ?s]
    by (simp add: returns_none_def)
  have r2: "basic_enter_room ?ok ''C'' ''/chat'' PNone None ?s = (Inr PNone, ?s)"
    using room_events_queued_then_flushed
      [where orig = ?ok and sid = "''C''" and namespace = "''/chat''" and room = PNone
         and eio_sid = None and s = ?s and ret = PNone and ?s1.0 = ?s]
    by (simp add: returns_none_def)
  have r3: "basic_enter_room ?bad ''C'' ''/chat'' (PStr ''general'') None ?s = (Inl (Raised ''boom''), ?s)"
    using room_events_queued_then_flushed
      [where orig = ?bad and sid = "''C''" and namespace = "''/chat''" and room = "PStr ''general''"
         and eio_sid = None and s = ?s and e = "Raised ''boom''" and ?s1.0 = ?s]
    by (simp add: raises_def)
  let ?s1 = "snd (basic_enter_room ?ok ''C'' ''/chat'' (PStr ''general'') None ?s)"
  let ?s2 = "snd (basic_leave_room ?ok' ''C'' ''/chat'' (PStr ''general'') ?s1)"
  have q: "map fst (admin_queue ?s2) = [''room_joined'', ''room_left''] \<and> emitted ?s2 = []"
    using f room_events_queued_then_flushed
      [where orig' = ?ok' and sid = "''C''" and namespace = "''/chat''" and room = "PStr ''general''"
         and s = ?s1]
    by (simp add: r1 returns_none_def)
  have r4: "map msg_event (emitted (stats_report 0 [] ?s2))
              = [''server_stats'', ''room_joined'', ''room_left'']"
    using q room_events_queued_then_flushed [where start_time = 0 and namespaces = "[]" and s = ?s2]
    by simp
  from r1 r2 r3 r4 show ?thesis by blast
qed

section \<open>Broadcasts\<close>

lemma py_eq_PStr: "py_eq (PStr a) w \<longleftrightarrow> w = PStr a"
  by (cases w) auto

lemma py_in_PStr: "py_in (PStr a) xs \<longleftrightarrow> PStr a \<in> set xs"
  by (auto simp: py_in_def list_ex_iff py_eq_PStr)

lemma event_sent_loop_eq:
  "event_sent_loop namespace event_data skip_sid ps s =
     s\<lparr>reads := reads s + length (filter (\<lambda>sid. PStr sid \<notin> set skip_sid) (map fst ps)),
       emitted := emitted s @ event_sent_msgs namespace event_data s
                    (filter (\<lambda>sid. PStr sid \<notin> set skip_sid) (map fst ps))\<rparr>"
proof (induction ps arbitrary: s)
  case Nil
  then show ?case by (simp add: event_sent_msgs_def)
next
  case (Cons p ps)
  obtain sid eio_sid where p: "p = (sid, eio_sid)" by (cases p)
  let ?R = "filter (\<lambda>sid. PStr sid \<notin> set skip_sid) (map fst ps)"
  define excluded where "excluded = (PStr sid \<in> set skip_sid)"
  show ?case
  proof (cases excluded)
    case True
    then show ?thesis by (simp add: excluded_def p Cons.IH py_in_PStr)
  next
    case False
    then have 2: "PStr sid \<notin> set skip_sid" by (simp add: excluded_def)
    let ?s' = "sio_emit ''event_sent''
                 (PTuple [PStr namespace, PStr sid, PList event_data,
                          PStr (isoformat s (clock s (reads s)))])
                 None (admin_namespace s) (s\<lparr>reads := Suc (reads s)\<rparr>)"
    have m: "event_sent_msgs namespace event_data ?s' ?R
               = map (\<lambda>(k, sid). Msg ''event_sent''
                        (PTuple [PStr namespace, PStr sid, PList event_data,
                                 PStr (isoformat s (clock s k))])
                        None (admin_namespace s))
                   (enumerate (Suc (reads s)) ?R)"
      by (simp add: event_sent_msgs_def sio_emit_def)
    have "event_sent_loop namespace event_data skip_sid (p # ps) s
            = event_sent_loop namespace event_data skip_sid ps ?s'"
      using 2 by (simp add: p py_in_PStr time_now_def)
    also have "\<dots> = ?s'\<lparr>reads := reads ?s' + length ?R,
                         emitted := emitted ?s' @ event_sent_msgs namespace event_data ?s' ?R\<rparr>"
      by (rule Cons.IH)
    also have "\<dots> = s\<lparr>reads := reads s + length (filter (\<lambda>sid. PStr sid \<notin> set skip_sid) (map fst (p # ps))),
                       emitted := emitted s @ event_sent_msgs namespace event_data s
                         (filter (\<lambda>sid. PStr sid \<notin> set skip_sid) (map fst (p # ps)))\<rparr>"
      using 2 unfolding m by (simp add: p sio_emit_def event_sent_msgs_def)
    finally show ?thesis .
  qed
qed


lemma event_sent_msgs_envelope:
  "map (\<lambda>m. (msg_event m, msg_namespace m, msg_to m))
     (map (\<lambda>(k, sid). Msg ''event_sent'' (F k sid) None nsp) (enumerate n sids))
   = map (\<lambda>sid. (''event_sent'', nsp, None)) sids"
  by (induction sids arbitrary: n) auto

lemma event_sent_msgs_payload:
  "map (\<lambda>m. case msg_data m of PTuple [n, i, d, t] \<Rightarrow> (n, i, d) | _ \<Rightarrow> (PNone, PNone, PNone))
     (map (\<lambda>(k, sid). Msg ''event_sent'' (PTuple [a, PStr sid, b, G k]) None nsp) (enumerate n sids))
   = map (\<lambda>sid. (a, PStr sid, b)) sids"
  by (induction sids arbitrary: n) auto

text \<open>
  C7. \<^verbatim>\<open>_emit\<close> delegates to the underlying broadcast; an exception of it propagates and
  nothing is published. When it has returned, its value is returned, and if the namespace
  is not the admin namespace one \<^verbatim>\<open>event_sent\<close> message is published on the admin namespace
  for each participant of the namespace and room, in their order, whose id is not in the
  exclusion list, where an exclusion that is not a list counts as the list of that one
  value. Each message carries the namespace, the recipient's id and the list of the event
  name followed by the arguments (the items of a tuple, or the one value), and its time.
\<close>

theorem emit_reports_each_recipient:
  "(orig event data namespace room skip_sid callback s = (Inr ret, s1) \<longrightarrow>
      emit orig event data namespace room skip_sid callback s =
        (Inr ret,
         if namespace \<noteq> admin_namespace s1 then
           s1\<lparr>reads := reads s1 + length
                  (filter (\<lambda>sid. PStr sid \<notin> set (case skip_sid of PList l \<Rightarrow> l | _ \<Rightarrow> [skip_sid]))
                     (map fst (sio_get_participants s1 namespace room))),
              emitted := emitted s1 @
                event_sent_msgs namespace
                  (case data of PTuple xs \<Rightarrow> [PStr event] @ xs | _ \<Rightarrow> [PStr event, data]) s1
                  (filter (\<lambda>sid. PStr sid \<notin> set (case skip_sid of PList l \<Rightarrow> l | _ \<Rightarrow> [skip_sid]))
                     (map fst (sio_get_participants s1 namespace room)))\<rparr>
         else s1))
   \<and> (orig event data namespace room skip_sid callback s = (Inl e, s1) \<longrightarrow>
      emit orig event data namespace room skip_sid callback s = (Inl e, s1))
   \<and> length (event_sent_msgs namespace event_data s sids) = length sids
   \<and> map (\<lambda>m. (msg_event m, msg_namespace m, msg_to m)) (event_sent_msgs namespace event_data s sids)
       = map (\<lambda>sid. (''event_sent'', admin_namespace s, None)) sids
   \<and> map (\<lambda>m. case msg_data m of PTuple [n, i, d, t] \<Rightarrow> (n, i, d) | _ \<Rightarrow> (PNone, PNone, PNone))
         (event_sent_msgs namespace event_data s sids)
       = map (\<lambda>sid. (PStr namespace, PStr sid, PList event_data)) sids"
proof -
  have a: "orig event data namespace room skip_sid callback s = (Inr ret, s1) \<longrightarrow>
      emit orig event data namespace room skip_sid callback s =
        (Inr ret,
         if namespace \<noteq> admin_namespace s1 then
           s1\<lparr>reads := reads s1 + length
                  (filter (\<lambda>sid. PStr sid \<notin> set (case skip_sid of PList l \<Rightarrow> l | _ \<Rightarrow> [skip_sid]))
                     (map fst (sio_get_participants s1 namespace room))),
              emitted := emitted s1 @
                event_sent_msgs namespace
                  (case data of PTuple xs \<Rightarrow> [PStr event] @ xs | _ \<Rightarrow> [PStr event, data]) s1
                  (filter (\<lambda>sid. PStr sid \<notin> set (case skip_sid of PList l \<Rightarrow> l | _ \<Rightarrow> [skip_sid]))
                     (map fst (sio_get_participants s1 namespace room)))\<rparr>
         else s1)"
    by (simp add: emit_def event_sent_loop_eq Let_def del: length_filter_map)
  have b: "orig event data namespace room skip_sid callback s = (Inl e, s1) \<longrightarrow>
      emit orig event data namespace room skip_sid callback s = (Inl e, s1)"
    by (simp add: emit_def)
  have c: "length (event_sent_msgs namespace event_data s sids) = length sids"
    by (simp add: event_sent_msgs_def)
  have d: "map (\<lambda>m. (msg_event m, msg_namespace m, msg_to m)) (event_sent_msgs namespace event_data s sids)
       = map (\<lambda>sid. (''event_sent'', admin_namespace s, None)) sids"
    unfolding event_sent_msgs_def by (rule event_sent_msgs_envelope)
  have e: "map (\<lambda>m. case msg_data m of PTuple [n, i, d, t] \<Rightarrow> (n, i, d) | _ \<Rightarrow> (PNone, PNone, PNone))
         (event_sent_msgs namespace event_data s sids)
       = map (\<lambda>sid. (PStr namespace, PStr sid, PList event_data)) sids"
    unfolding event_sent_msgs_def by (rule event_sent_msgs_payload)
  from a b c d e show ?thesis by blast
qed


text \<open>
  A broadcast to the two connections of the default namespace that skips \<^verbatim>\<open>s2\<close> is reported
  once, for \<^verbatim>\<open>s1\<close>; one on the admin namespace is not reported; one that raises neither.
\<close>

theorem emit_reports_each_recipient_witness:
  "emit (\<lambda>event data namespace room skip_sid callback. returns_none)
       ''chat'' (PTuple [PStr ''hi'', PInt 1]) ''/'' PNone (PStr ''s2'') PNone
       (demo (AuthVal demo_credentials))
     = (Inr PNone, (demo (AuthVal demo_credentials))\<lparr>reads := 1, emitted :=
          [Msg ''event_sent''
             (PTuple [PStr ''/'', PStr ''s1'', PList [PStr ''chat'', PStr ''hi'', PInt 1],
                      PStr ''1970-01-01T00:00:01+00:00''])
             None ''/admin'']\<rparr>)
   \<and> emit (\<lambda>event data namespace room skip_sid callback. returns_none)
       ''config'' (PDict []) ''/admin'' PNone PNone PNone (demo (AuthVal demo_credentials))
     = (Inr PNone, demo (AuthVal demo_credentials))
   \<and> emit (\<lambda>event data namespace room skip_sid callback. raises)
       ''chat'' (PStr ''hi'') ''/'' PNone PNone PNone (demo (AuthVal demo_credentials))
     = (Inl (Raised ''boom''), demo (AuthVal demo_credentials))"
proof -
  let ?s = "demo (AuthVal demo_credentials)"
  let ?ok = "\<lambda>(event :: string) (data :: pyval) (namespace :: string) (room :: pyval)
               (skip_sid :: pyval) (callback :: pyval). returns_none"
  let ?bad = "\<lambda>(event :: string) (data :: pyval) (namespace :: string) (room :: pyval)
               (skip_sid :: pyval) (callback :: pyval). raises"
  have f: "reads ?s = 0 \<and> emitted ?s = [] \<and> clock ?s 0 = 1 \<and> admin_namespace ?s = ''/admin''
           \<and> isoformat ?s 1 = ''1970-01-01T00:00:01+00:00''
           \<and> sio_get_participants ?s ''/'' PNone = [(''s1'', ''e1''), (''s2'', ''e2'')]"
    by (simp add: demo_def init_def demo_sio_def demo_credentials_def)
  have r1: "emit ?ok ''chat'' (PTuple [PStr ''hi'', PInt 1]) ''/'' PNone (PStr ''s2'') PNone ?s
     = (Inr PNone, ?s\<lparr>reads := 1, emitted :=
          [Msg ''event_sent''
             (PTuple [PStr ''/'', PStr ''s1'', PList [PStr ''chat'', PStr ''hi'', PInt 1],
                      PStr ''1970-01-01T00:00:01+00:00''])
             None ''/admin'']\<rparr>)"
    using f emit_reports_each_recipient
      [where orig = ?ok and event = "''chat''" and data = "PTuple [PStr ''hi'', PInt 1]"
         and namespace = "''/''" and room = PNone and skip_sid = "PStr ''s2''" and callback = PNone
         and s = ?s and ret = PNone and ?s1.0 = ?s]
    by (simp add: returns_none_def event_sent_msgs_def)
  have r2: "emit ?ok ''config'' (PDict []) ''/admin'' PNone PNone PNone ?s = (Inr PNone, ?s)"
    using f emit_reports_each_recipient
      [where orig = ?ok and event = "''config''" and data = "PDict []"
         and namespace = "''/admin''" and room = PNone and skip_sid = PNone and callback = PNone
         and s = ?s and ret = PNone and ?s1.0 = ?s]
    by (simp add: returns_none_def)
  have r3: "emit ?bad ''chat'' (PStr ''hi'') ''/'' PNone PNone PNone ?s = (Inl (Raised ''boom''), ?s)"
    using emit_reports_each_recipient
      [where orig = ?bad and event = "''chat''" and data = "PStr ''hi''"
         and namespace = "''/''" and room = PNone and skip_sid = PNone and callback = PNone
         and s = ?s and e = "Raised ''boom''" and ?s1.0 = ?s]
    by (simp add: raises_def)
  from r1 r2 r3 show ?thesis by blast
qed

section \<open>Dispatched events\<close>

lemma trigger_event_connect:
  assumes "sio_eio_sid_from_sid s sid (Some namespace) = Inr eio_sid"
    and "serialize_socket sid namespace eio_sid
           (s\<lparr>reads := Suc (reads s), timestamps := (timestamps s)(sid \<mapsto> clock s (reads s))\<rparr>)
         = Inr sock"
  shows "trigger_event orig ''connect'' namespace sid rest s =
        orig ''connect'' namespace (PStr sid # rest)
          (s\<lparr>reads := Suc (reads s),
             timestamps := (timestamps s)(sid \<mapsto> clock s (reads s)),
             emitted := emitted s @
               [Msg ''socket_connected'' (PTuple [sock, PStr (isoformat s (clock s (reads s)))])
                  None (admin_namespace s)]\<rparr>)"
  using assms by (simp add: trigger_event_def time_now_def sio_emit_def)

lemma trigger_event_disconnect:
  assumes "timestamps s sid \<noteq> None"
  shows "trigger_event orig ''disconnect'' namespace sid (reason # rest') s =
        orig ''disconnect'' namespace (PStr sid # reason # rest')
          (s\<lparr>reads := Suc (reads s),
             timestamps := (timestamps s)(sid := None),
             emitted := emitted s @
               [Msg ''socket_disconnected''
                  (PTuple [PStr namespace, PStr sid, reason, PStr (isoformat s (clock s (reads s)))])
                  None (admin_namespace s)]\<rparr>)"
  using assms by (auto simp: trigger_event_def time_now_def sio_emit_def)

lemma trigger_event_other:
  assumes "event \<noteq> ''connect''" "event \<noteq> ''disconnect''"
  shows "trigger_event orig event namespace sid rest s =
        orig event namespace (PStr sid # rest)
          (s\<lparr>reads := Suc (reads s),
             emitted := emitted s @
               [Msg ''event_received''
                  (PTuple [PStr namespace, PStr sid, PTuple (PStr event # rest),
                           PStr (isoformat s (clock s (reads s)))])
                  None (admin_namespace s)]\<rparr>)"
  using assms by (simp add: trigger_event_def time_now_def sio_emit_def)

lemma trigger_event_disconnect_untracked:
  "timestamps s sid = None \<Longrightarrow>
   trigger_event orig ''disconnect'' namespace sid rest s
     = (Inl (KeyError sid), s\<lparr>reads := Suc (reads s)\<rparr>)"
  by (simp add: trigger_event_def time_now_def)

text \<open>
  C5, amended. Whenever the interceptor's own bookkeeping goes through (for a connect: the
  transport identity is found and the snapshot is built; for a disconnect: the
  connection has a timestamp entry and a reason is passed; for any other event: always),
  the result of \<^verbatim>\<open>_trigger_event\<close> is the result of the original dispatch, value or exception
  and final state, run with the same arguments on the state in which the one notification
  \<^verbatim>\<open>socket_connected\<close>, \<^verbatim>\<open>socket_disconnected\<close> or \<^verbatim>\<open>event_received\<close> has already been published.
\<close>

theorem trigger_event_publishes_then_forwards:
  "(event = ''connect'' \<and> sio_eio_sid_from_sid s sid (Some namespace) = Inr eio_sid \<and>
    serialize_socket sid namespace eio_sid
      (s\<lparr>reads := Suc (reads s), timestamps := (timestamps s)(sid \<mapsto> clock s (reads s))\<rparr>) = Inr sock \<longrightarrow>
      trigger_event orig event namespace sid rest s =
        orig event namespace (PStr sid # rest)
          (s\<lparr>reads := Suc (reads s),
             timestamps := (timestamps s)(sid \<mapsto> clock s (reads s)),
             emitted := emitted s @
               [Msg ''socket_connected'' (PTuple [sock, PStr (isoformat s (clock s (reads s)))])
                  None (admin_namespace s)]\<rparr>))
   \<and> (event = ''disconnect'' \<and> timestamps s sid \<noteq> None \<and> rest = reason # rest' \<longrightarrow>
      trigger_event orig event namespace sid rest s =
        orig event namespace (PStr sid # rest)
          (s\<lparr>reads := Suc (reads s),
             timestamps := (timestamps s)(sid := None),
             emitted := emitted s @
               [Msg ''socket_disconnected''
                  (PTuple [PStr namespace, PStr sid, reason, PStr (isoformat s (clock s (reads s)))])
                  None (admin_namespace s)]\<rparr>))
   \<and> (event \<noteq> ''connect'' \<and> event \<noteq> ''disconnect'' \<longrightarrow>
      trigger_event orig event namespace sid rest s =
        orig event namespace (PStr sid # rest)
          (s\<lparr>reads := Suc (reads s),
             emitted := emitted s @
               [Msg ''event_received''
                  (PTuple [PStr namespace, PStr sid, PTuple (PStr event # rest),
                           PStr (isoformat s (clock s (reads s)))])
                  None (admin_namespace s)]\<rparr>))"
  using trigger_event_connect [of s sid namespace eio_sid sock orig rest]
    trigger_event_disconnect [of s sid orig namespace reason rest']
    trigger_event_other [of event orig namespace sid rest s]
  by auto

text \<open>
  C5, as stated, fails. Connection \<^verbatim>\<open>s2\<close> has no timestamp entry (its connect was never
  dispatched through the wrapper). The original dispatch would handle its disconnect and
  return; the wrapper raises \<^verbatim>\<open>KeyError\<close> at \<^verbatim>\<open>del self.sio.manager._timestamps[sid]\<close>,
  publishes nothing and never reaches the original dispatch.
\<close>

theorem untracked_disconnect_is_not_forwarded:
  "fst (dispatch_ok ''disconnect'' ''/'' [PStr ''s2'', PStr ''transport close'']
          (demo (AuthVal demo_credentials))) = Inr (PStr ''handled'')
   \<and> trigger_event dispatch_ok ''disconnect'' ''/'' ''s2'' [PStr ''transport close'']
          (demo (AuthVal demo_credentials))
       = (Inl (KeyError ''s2''), (demo (AuthVal demo_credentials))\<lparr>reads := 1\<rparr>)
   \<and> emitted ((demo (AuthVal demo_credentials))\<lparr>reads := 1\<rparr>) = []"
  by (simp add: trigger_event_def time_now_def dispatch_ok_def demo_def init_def demo_sio_def
      demo_credentials_def)

lemma demo_facts:
  "sio_eio_sid_from_sid (demo (AuthVal demo_credentials)) ''s1'' (Some ''/'') = Inr (Some ''e1'')
   \<and> reads (demo (AuthVal demo_credentials)) = 0
   \<and> clock (demo (AuthVal demo_credentials)) = (\<lambda>n. real (Suc n))
   \<and> timestamps (demo (AuthVal demo_credentials)) = Map.empty
   \<and> emitted (demo (AuthVal demo_credentials)) = []
   \<and> admin_namespace (demo (AuthVal demo_credentials)) = ''/admin''
   \<and> isoformat (demo (AuthVal demo_credentials)) = (\<lambda>t. ''1970-01-01T00:00:01+00:00'')
   \<and> eio_get_socket (demo (AuthVal demo_credentials)) (Some ''e1'') = Inr False"
  by (simp add: demo_def init_def demo_sio_def demo_credentials_def)

lemma demo_serialize:
  "serialize_socket ''s1'' ''/'' (Some ''e1'')
     ((demo (AuthVal demo_credentials))\<lparr>reads := Suc 0, timestamps := [''s1'' \<mapsto> 1]\<rparr>)
   = Inr (demo_snapshot (PReal 1000) (PStr ''1970-01-01T00:00:01+00:00''))"
  by (simp add: serialize_socket_def environ_get_def demo_snapshot_def demo_def init_def demo_sio_def
      demo_credentials_def)

lemma connected_state_eq:
  "connected_state = (demo (AuthVal demo_credentials))\<lparr>
      reads := 1, timestamps := [''s1'' \<mapsto> 1],
      emitted := [Msg ''socket_connected''
        (PTuple [demo_snapshot (PReal 1000) (PStr ''1970-01-01T00:00:01+00:00''),
                 PStr ''1970-01-01T00:00:01+00:00'']) None ''/admin'']\<rparr>"
  unfolding connected_state_def
  using demo_facts demo_serialize
    trigger_event_connect
      [where s = "demo (AuthVal demo_credentials)" and sid = "''s1''" and namespace = "''/''"
         and eio_sid = "Some ''e1''" and orig = dispatch_ok and rest = "[PDict []]"]
  by (simp add: dispatch_ok_def)

lemma disconnected_state_eq:
  "disconnected_state = connected_state\<lparr>
      reads := 2, timestamps := Map.empty,
      emitted := emitted connected_state @ [Msg ''socket_disconnected''
        (PTuple [PStr ''/'', PStr ''s1'', PStr ''transport close'', PStr ''1970-01-01T00:00:01+00:00''])
        None ''/admin'']\<rparr>"
  unfolding disconnected_state_def
  using demo_facts
    trigger_event_disconnect
      [where s = connected_state and sid = "''s1''" and namespace = "''/''"
         and orig = dispatch_ok and reason = "PStr ''transport close''" and rest' = "[]"]
  by (simp add: dispatch_ok_def connected_state_eq)


text \<open>
  A connect whose handler raises: the exception comes back unchanged and
  \<^verbatim>\<open>socket_connected\<close> stands published. The disconnect and an application event of the
  connected \<^verbatim>\<open>s1\<close> return the handler's value after their notification.
\<close>

theorem trigger_event_publishes_then_forwards_witness:
  "trigger_event dispatch_fails ''connect'' ''/'' ''s1'' [PDict []] (demo (AuthVal demo_credentials))
     = (Inl (Raised ''handler failed''), connected_state)
   \<and> map msg_event (emitted connected_state) = [''socket_connected'']
   \<and> trigger_event dispatch_ok ''disconnect'' ''/'' ''s1'' [PStr ''transport close''] connected_state
     = (Inr (PStr ''handled''), disconnected_state)
   \<and> map msg_event (emitted disconnected_state) = [''socket_connected'', ''socket_disconnected'']
   \<and> trigger_event dispatch_ok ''chat message'' ''/'' ''s1'' [PStr ''hello''] connected_state
     = (Inr (PStr ''handled''), connected_state\<lparr>reads := 2, emitted := emitted connected_state @
          [Msg ''event_received''
             (PTuple [PStr ''/'', PStr ''s1'', PTuple [PStr ''chat message'', PStr ''hello''],
                      PStr ''1970-01-01T00:00:01+00:00''])
             None ''/admin'']\<rparr>)"
proof -
  let ?s = "demo (AuthVal demo_credentials)"
  have r1: "trigger_event dispatch_fails ''connect'' ''/'' ''s1'' [PDict []] ?s
     = (Inl (Raised ''handler failed''), connected_state)"
    using demo_facts demo_serialize
      trigger_event_publishes_then_forwards
        [where event = "''connect''" and s = ?s and sid = "''s1''" and namespace = "''/''"
           and eio_sid = "Some ''e1''" and orig = dispatch_fails and rest = "[PDict []]"]
    by (simp add: dispatch_fails_def connected_state_eq)
  have r2: "map msg_event (emitted connected_state) = [''socket_connected'']"
    by (simp add: connected_state_eq)
  have r3: "trigger_event dispatch_ok ''disconnect'' ''/'' ''s1'' [PStr ''transport close''] connected_state
     = (Inr (PStr ''handled''), disconnected_state)"
    using demo_facts
      trigger_event_publishes_then_forwards
        [where event = "''disconnect''" and s = connected_state and sid = "''s1''"
           and namespace = "''/''" and orig = dispatch_ok and rest = "[PStr ''transport close'']"
           and reason = "PStr ''transport close''" and rest' = "[]"]
    by (simp add: dispatch_ok_def connected_state_eq disconnected_state_eq)
  have r4: "map msg_event (emitted disconnected_state) = [''socket_connected'', ''socket_disconnected'']"
    by (simp add: connected_state_eq disconnected_state_eq)
  have r5: "trigger_event dispatch_ok ''chat message'' ''/'' ''s1'' [PStr ''hello''] connected_state
     = (Inr (PStr ''handled''), connected_state\<lparr>reads := 2, emitted := emitted connected_state @
          [Msg ''event_received''
             (PTuple [PStr ''/'', PStr ''s1'', PTuple [PStr ''chat message'', PStr ''hello''],
                      PStr ''1970-01-01T00:00:01+00:00''])
             None ''/admin'']\<rparr>)"
    using demo_facts
      trigger_event_publishes_then_forwards
        [where event = "''chat message''" and s = connected_state and sid = "''s1''"
           and namespace = "''/''" and orig = dispatch_ok and rest = "[PStr ''hello'']"]
    by (simp add: dispatch_ok_def connected_state_eq)
  from r1 r2 r3 r4 r5 show ?thesis by blast
qed

section \<open>Stale timestamp lookups\<close>

text \<open>
  C6, as stated, fails: an operation of the layer does raise on an identity that is absent
  from the timestamp table. After \<^verbatim>\<open>s1\<close> has disconnected its entry is gone, and a
  disconnect dispatched for it then raises \<^verbatim>\<open>KeyError\<close>.
\<close>

theorem repeated_disconnect_raises:
  "timestamps disconnected_state ''s1'' = None
   \<and> trigger_event dispatch_ok ''disconnect'' ''/'' ''s1'' [PStr ''transport close''] disconnected_state
       = (Inl (KeyError ''s1''), disconnected_state\<lparr>reads := 3\<rparr>)"
proof -
  have a: "timestamps disconnected_state ''s1'' = None"
    by (simp add: disconnected_state_eq)
  have b: "reads disconnected_state = 2"
    by (simp add: disconnected_state_eq)
  from a b trigger_event_disconnect_untracked
    [of disconnected_state "''s1''" dispatch_ok "''/''" "[PStr ''transport close'']"]
  show ?thesis by simp
qed

text \<open>
  C6, amended. In \<^verbatim>\<open>serialize_socket\<close> a connection without a timestamp entry is a miss that
  raises nothing: whenever the transport socket is found, the snapshot is returned, with
  \<^verbatim>\<open>issued\<close> 0 and the empty \<^verbatim>\<open>time\<close> string; and whether \<^verbatim>\<open>serialize_socket\<close> raises at all
  is the same with and without an entry for the connection.
\<close>

theorem missing_timestamp_is_reported_as_zero:
  "timestamps s sid = None \<longrightarrow>
     ((case eio_sid of None \<Rightarrow> sio_eio_sid_from_sid s sid None | Some e \<Rightarrow> Inr (Some e)) = Inr eio_sid'
       \<and> eio_get_socket s eio_sid' = Inr upgraded \<longrightarrow>
        (\<exists>snapshot handshake.
           serialize_socket sid namespace eio_sid s = Inr (PDict snapshot)
           \<and> map_of snapshot ''handshake'' = Some (PDict handshake)
           \<and> map_of handshake ''issued'' = Some (PInt 0)
           \<and> map_of handshake ''time'' = Some (PStr [])))
     \<and> isl (serialize_socket sid namespace eio_sid s)
          = isl (serialize_socket sid namespace eio_sid (s\<lparr>timestamps := (timestamps s)(sid \<mapsto> t)\<rparr>))"
  by (auto simp: serialize_socket_def Let_def split: sum.splits option.splits)

text \<open>
  \<^verbatim>\<open>s1\<close> connects and disconnects; a snapshot of it taken afterwards has issue time 0 and no
  time string, where the one taken while it was connected had both.
\<close>

theorem missing_timestamp_is_reported_as_zero_witness:
  "timestamps disconnected_state ''s1'' = None
   \<and> (\<exists>snapshot handshake.
         serialize_socket ''s1'' ''/'' (Some ''e1'') disconnected_state = Inr (PDict snapshot)
         \<and> map_of snapshot ''handshake'' = Some (PDict handshake)
         \<and> map_of handshake ''issued'' = Some (PInt 0)
         \<and> map_of handshake ''time'' = Some (PStr []))
   \<and> serialize_socket ''s1'' ''/'' (Some ''e1'') disconnected_state
     = Inr (demo_snapshot (PInt 0) (PStr []))
   \<and> serialize_socket ''s1'' ''/'' (Some ''e1'') connected_state
     = Inr (demo_snapshot (PReal 1000) (PStr ''1970-01-01T00:00:01+00:00''))"
proof -
  have f: "timestamps disconnected_state ''s1'' = None
           \<and> eio_get_socket disconnected_state (Some ''e1'') = Inr False"
    using demo_facts by (simp add: disconnected_state_eq connected_state_eq)
  have r1: "\<exists>snapshot handshake.
           serialize_socket ''s1'' ''/'' (Some ''e1'') disconnected_state = Inr (PDict snapshot)
           \<and> map_of snapshot ''handshake'' = Some (PDict handshake)
           \<and> map_of handshake ''issued'' = Some (PInt 0)
           \<and> map_of handshake ''time'' = Some (PStr [])"
    using f missing_timestamp_is_reported_as_zero
      [where s = disconnected_state and sid = "''s1''" and eio_sid = "Some ''e1''"
         and eio_sid' = "Some ''e1''" and upgraded = False and namespace = "''/''"]
    by simp
  have r2: "serialize_socket ''s1'' ''/'' (Some ''e1'') disconnected_state
     = Inr (demo_snapshot (PInt 0) (PStr []))"
    by (simp add: serialize_socket_def environ_get_def demo_snapshot_def disconnected_state_eq
        connected_state_eq demo_def init_def demo_sio_def demo_credentials_def)
  have r3: "serialize_socket ''s1'' ''/'' (Some ''e1'') connected_state
     = Inr (demo_snapshot (PReal 1000) (PStr ''1970-01-01T00:00:01+00:00''))"
    by (simp add: serialize_socket_def environ_get_def demo_snapshot_def
        connected_state_eq demo_def init_def demo_sio_def demo_credentials_def)
  from f r1 r2 r3 show ?thesis by blast
qed

end
